theory Spec2Isabelle
  imports Main "HOL-Library.Char_ord" "HOL-Library.List_Lexorder" "HOL-Library.Sublist"
    "HOL-Library.AList"
begin

section \<open>The documentation builder of docs/build\_documentation.py\<close>

text \<open>
  The script is one class, \<open>DocumentationBuilder\<close>, whose methods read and rewrite markdown
  files. The embedding follows the methods one by one.

  \<^item> A Python \<open>str\<close> is a \<open>string\<close> holding the UTF-8 bytes of the text. Substring
    tests, \<open>startswith\<close>, \<open>split\<close> and \<open>join\<close> agree with Python on such strings. The
    case conversions \<open>lower\<close> and \<open>title\<close> and the whitespace of \<open>strip\<close> work on the
    characters that the bytes encode, with the Unicode tables of Python 3.11.
  \<^item> The file system is an association list from path to text, in the order in which a
    directory listing enumerates the files. Only regular text files are entries; a
    directory exists when a file lies below it. The text of a file is what
    \<open>Path.read_text\<close> returns and \<open>Path.write_text\<close> stores.
  \<^item> The builder is created as \<open>DocumentationBuilder()\<close>, so \<open>base_path\<close> is the
    current directory and every path is relative to it: \<open>docs_path\<close> is \<open>docs\<close>.
  \<^item> A \<open>dict\<close> is an association list in insertion order; assigning to a key that is
    present keeps its position (\<open>AList.update\<close>).
  \<^item> An exception is a value \<open>Inl e\<close> of a sum type.
\<close>

subsection \<open>Python strings\<close>

definition nl :: char where
  "nl = CHR 0x0A"

text \<open>\<open>s.startswith(pre)\<close>.\<close>

definition startswith :: "string \<Rightarrow> string \<Rightarrow> bool" where
  "startswith s pre = prefix pre s"

text \<open>\<open>sub in s\<close>: \<open>sub\<close> occurs in \<open>s\<close> at some position.\<close>

fun contains :: "string \<Rightarrow> string \<Rightarrow> bool" where
  "contains sub [] = (sub = [])"
| "contains sub (c # cs) = (prefix sub (c # cs) \<or> contains sub cs)"

text \<open>\<open>s.split(d)\<close> for a one-character separator: never empty.\<close>

fun str_split :: "char \<Rightarrow> string \<Rightarrow> string list" where
  "str_split d [] = [[]]"
| "str_split d (c # cs) =
     (if c = d then [] # str_split d cs
      else (case str_split d cs of [] \<Rightarrow> [[c]] | l # ls \<Rightarrow> (c # l) # ls))"

text \<open>\<open>sep.join(xs)\<close>.\<close>

fun str_join :: "string \<Rightarrow> string list \<Rightarrow> string" where
  "str_join sep [] = []"
| "str_join sep [x] = x"
| "str_join sep (x # y # ys) = x @ sep @ str_join sep (y # ys)"

text \<open>\<open>s.replace(a, b)\<close> for single characters.\<close>

definition str_replace :: "char \<Rightarrow> char \<Rightarrow> string \<Rightarrow> string" where
  "str_replace a b s = map (\<lambda>c. if c = a then b else c) s"

text \<open>The letters of ASCII and their case.\<close>

definition upper_letters :: string where
  "upper_letters = ''ABCDEFGHIJKLMNOPQRSTUVWXYZ''"

definition lower_letters :: string where
  "lower_letters = ''abcdefghijklmnopqrstuvwxyz''"

definition to_lower :: "char \<Rightarrow> char" where
  "to_lower c = (case map_of (zip upper_letters lower_letters) c of Some d \<Rightarrow> d | None \<Rightarrow> c)"

definition to_upper :: "char \<Rightarrow> char" where
  "to_upper c = (case map_of (zip lower_letters upper_letters) c of Some d \<Rightarrow> d | None \<Rightarrow> c)"

definition is_cased :: "char \<Rightarrow> bool" where
  "is_cased c = (c \<in> set upper_letters \<or> c \<in> set lower_letters)"

subsection \<open>Python strings: characters and their Unicode properties\<close>

text \<open>
  \<open>str.lower\<close>, \<open>str.title\<close> and \<open>str.strip\<close> work on the characters of the text, by their
  Unicode properties. The functions below follow CPython (\<open>do_lower\<close>, \<open>do_title\<close>,
  \<open>lower_ucs4\<close>, \<open>handle_capital_sigma\<close> and the whitespace test of \<open>strip\<close>), and the
  tables are those of Unicode 14.0.0, the version of Python 3.11: the code points for
  which \<open>str.isspace\<close> holds, the cased and the case-ignorable code points, and the full
  lower-case and title-case mappings.

  A character of a text is a byte that is no continuation byte together with the
  continuation bytes that follow it; a code point is an \<open>int\<close>.
\<close>

definition is_ascii :: "char \<Rightarrow> bool" where
  "is_ascii c = (\<not> digit7 c)"

definition is_continuation :: "char \<Rightarrow> bool" where
  "is_continuation c = (digit7 c \<and> \<not> digit6 c)"

fun utf8_chars :: "string \<Rightarrow> string list" where
  "utf8_chars [] = []"
| "utf8_chars (c # cs) =
     (case utf8_chars cs of
        [] \<Rightarrow> [[c]]
      | u # us \<Rightarrow>
          (case u of
             [] \<Rightarrow> [c] # u # us
           | b # _ \<Rightarrow> if is_continuation b then (c # u) # us else [c] # u # us))"

definition code_point :: "string \<Rightarrow> int option" where
  "code_point u =
     (case u of
        [a] \<Rightarrow> if is_ascii a then Some (of_char a) else None
      | [a, b] \<Rightarrow>
          if 0xC0 \<le> (of_char a :: int) \<and> (of_char a :: int) \<le> 0xDF
          then Some ((of_char a - 0xC0) * 64 + (of_char b - 0x80)) else None
      | [a, b, c] \<Rightarrow>
          if 0xE0 \<le> (of_char a :: int) \<and> (of_char a :: int) \<le> 0xEF
          then Some ((of_char a - 0xE0) * 4096 + (of_char b - 0x80) * 64 + (of_char c - 0x80))
          else None
      | [a, b, c, d] \<Rightarrow>
          if 0xF0 \<le> (of_char a :: int) \<and> (of_char a :: int) \<le> 0xF7
          then Some ((of_char a - 0xF0) * 262144 + (of_char b - 0x80) * 4096
                     + (of_char c - 0x80) * 64 + (of_char d - 0x80))
          else None
      | _ \<Rightarrow> None)"

definition utf8_encode :: "int \<Rightarrow> string" where
  "utf8_encode cp =
     (if cp < 0x80 then [char_of cp]
      else if cp < 0x800 then [char_of (0xC0 + cp div 64), char_of (0x80 + cp mod 64)]
      else if cp < 0x10000 then
        [char_of (0xE0 + cp div 4096), char_of (0x80 + cp div 64 mod 64), char_of (0x80 + cp mod 64)]
      else
        [char_of (0xF0 + cp div 262144), char_of (0x80 + cp div 4096 mod 64),
         char_of (0x80 + cp div 64 mod 64), char_of (0x80 + cp mod 64)])"

text \<open>
  A range \<open>(lo, hi)\<close> holds the code points from \<open>lo\<close> to \<open>hi\<close>. A run
  \<open>(lo, hi, step, target)\<close> maps every \<open>step\<close>-th code point from \<open>lo\<close> to \<open>hi\<close> to the
  code point at the same distance from \<open>target\<close>.
\<close>

fun in_ranges :: "int \<Rightarrow> (int \<times> int) list \<Rightarrow> bool" where
  "in_ranges cp [] = False"
| "in_ranges cp ((lo, hi) # rest) = (if lo \<le> cp \<and> cp \<le> hi then True else in_ranges cp rest)"

fun run_lookup :: "int \<Rightarrow> (int \<times> int \<times> int \<times> int) list \<Rightarrow> int option" where
  "run_lookup cp [] = None"
| "run_lookup cp ((lo, hi, step, target) # rest) =
     (if lo \<le> cp \<and> cp \<le> hi \<and> (cp - lo) mod step = 0 then Some (target + (cp - lo))
      else run_lookup cp rest)"

definition whitespace_chars :: "string list" where
  "whitespace_chars =
    [[CHR 0x09], [CHR 0x0A], [CHR 0x0B], [CHR 0x0C], [CHR 0x0D], [CHR 0x1C], [CHR 0x1D], [CHR 0x1E],
     [CHR 0x1F], [CHR 0x20], [CHR 0xC2, CHR 0x85], [CHR 0xC2, CHR 0xA0],
     [CHR 0xE1, CHR 0x9A, CHR 0x80], [CHR 0xE2, CHR 0x80, CHR 0x80], [CHR 0xE2, CHR 0x80, CHR 0x81],
     [CHR 0xE2, CHR 0x80, CHR 0x82], [CHR 0xE2, CHR 0x80, CHR 0x83], [CHR 0xE2, CHR 0x80, CHR 0x84],
     [CHR 0xE2, CHR 0x80, CHR 0x85], [CHR 0xE2, CHR 0x80, CHR 0x86], [CHR 0xE2, CHR 0x80, CHR 0x87],
     [CHR 0xE2, CHR 0x80, CHR 0x88], [CHR 0xE2, CHR 0x80, CHR 0x89], [CHR 0xE2, CHR 0x80, CHR 0x8A],
     [CHR 0xE2, CHR 0x80, CHR 0xA8], [CHR 0xE2, CHR 0x80, CHR 0xA9], [CHR 0xE2, CHR 0x80, CHR 0xAF],
     [CHR 0xE2, CHR 0x81, CHR 0x9F], [CHR 0xE3, CHR 0x80, CHR 0x80]]"

definition cased_ranges :: "(int \<times> int) list" where
  "cased_ranges =
    [(0xAA, 0xAA), (0xB5, 0xB5), (0xBA, 0xBA), (0xC0, 0xD6), (0xD8, 0xF6), (0xF8, 0x1BA),
     (0x1BC, 0x1BF), (0x1C4, 0x293), (0x295, 0x2B8), (0x2C0, 0x2C1), (0x2E0, 0x2E4), (0x345, 0x345),
     (0x370, 0x373), (0x376, 0x377), (0x37A, 0x37D), (0x37F, 0x37F), (0x386, 0x386), (0x388, 0x38A),
     (0x38C, 0x38C), (0x38E, 0x3A1), (0x3A3, 0x3F5), (0x3F7, 0x481), (0x48A, 0x52F), (0x531, 0x556),
     (0x560, 0x588), (0x10A0, 0x10C5), (0x10C7, 0x10C7), (0x10CD, 0x10CD), (0x10D0, 0x10FA),
     (0x10FD, 0x10FF), (0x13A0, 0x13F5), (0x13F8, 0x13FD), (0x1C80, 0x1C88), (0x1C90, 0x1CBA),
     (0x1CBD, 0x1CBF), (0x1D00, 0x1DBF), (0x1E00, 0x1F15), (0x1F18, 0x1F1D), (0x1F20, 0x1F45),
     (0x1F48, 0x1F4D), (0x1F50, 0x1F57), (0x1F59, 0x1F59), (0x1F5B, 0x1F5B), (0x1F5D, 0x1F5D),
     (0x1F5F, 0x1F7D), (0x1F80, 0x1FB4), (0x1FB6, 0x1FBC), (0x1FBE, 0x1FBE), (0x1FC2, 0x1FC4),
     (0x1FC6, 0x1FCC), (0x1FD0, 0x1FD3), (0x1FD6, 0x1FDB), (0x1FE0, 0x1FEC), (0x1FF2, 0x1FF4),
     (0x1FF6, 0x1FFC), (0x2071, 0x2071), (0x207F, 0x207F), (0x2090, 0x209C), (0x2102, 0x2102),
     (0x2107, 0x2107), (0x210A, 0x2113), (0x2115, 0x2115), (0x2119, 0x211D), (0x2124, 0x2124),
     (0x2126, 0x2126), (0x2128, 0x2128), (0x212A, 0x212D), (0x212F, 0x2134), (0x2139, 0x2139),
     (0x213C, 0x213F), (0x2145, 0x2149), (0x214E, 0x214E), (0x2160, 0x217F), (0x2183, 0x2184),
     (0x24B6, 0x24E9), (0x2C00, 0x2CE4), (0x2CEB, 0x2CEE), (0x2CF2, 0x2CF3), (0x2D00, 0x2D25),
     (0x2D27, 0x2D27), (0x2D2D, 0x2D2D), (0xA640, 0xA66D), (0xA680, 0xA69D), (0xA722, 0xA787),
     (0xA78B, 0xA78E), (0xA790, 0xA7CA), (0xA7D0, 0xA7D1), (0xA7D3, 0xA7D3), (0xA7D5, 0xA7D9),
     (0xA7F5, 0xA7F6), (0xA7F8, 0xA7FA), (0xAB30, 0xAB5A), (0xAB5C, 0xAB68), (0xAB70, 0xABBF),
     (0xFB00, 0xFB06), (0xFB13, 0xFB17), (0xFF21, 0xFF3A), (0xFF41, 0xFF5A), (0x10400, 0x1044F),
     (0x104B0, 0x104D3), (0x104D8, 0x104FB), (0x10570, 0x1057A), (0x1057C, 0x1058A),
     (0x1058C, 0x10592), (0x10594, 0x10595), (0x10597, 0x105A1), (0x105A3, 0x105B1),
     (0x105B3, 0x105B9), (0x105BB, 0x105BC), (0x10780, 0x10780), (0x10783, 0x10785),
     (0x10787, 0x107B0), (0x107B2, 0x107BA), (0x10C80, 0x10CB2), (0x10CC0, 0x10CF2),
     (0x118A0, 0x118DF), (0x16E40, 0x16E7F), (0x1D400, 0x1D454), (0x1D456, 0x1D49C),
     (0x1D49E, 0x1D49F), (0x1D4A2, 0x1D4A2), (0x1D4A5, 0x1D4A6), (0x1D4A9, 0x1D4AC),
     (0x1D4AE, 0x1D4B9), (0x1D4BB, 0x1D4BB), (0x1D4BD, 0x1D4C3), (0x1D4C5, 0x1D505),
     (0x1D507, 0x1D50A), (0x1D50D, 0x1D514), (0x1D516, 0x1D51C), (0x1D51E, 0x1D539),
     (0x1D53B, 0x1D53E), (0x1D540, 0x1D544), (0x1D546, 0x1D546), (0x1D54A, 0x1D550),
     (0x1D552, 0x1D6A5), (0x1D6A8, 0x1D6C0), (0x1D6C2, 0x1D6DA), (0x1D6DC, 0x1D6FA),
     (0x1D6FC, 0x1D714), (0x1D716, 0x1D734), (0x1D736, 0x1D74E), (0x1D750, 0x1D76E),
     (0x1D770, 0x1D788), (0x1D78A, 0x1D7A8), (0x1D7AA, 0x1D7C2), (0x1D7C4, 0x1D7CB),
     (0x1DF00, 0x1DF09), (0x1DF0B, 0x1DF1E), (0x1E900, 0x1E943), (0x1F130, 0x1F149),
     (0x1F150, 0x1F169), (0x1F170, 0x1F189)]"

definition case_ignorable_ranges :: "(int \<times> int) list" where
  "case_ignorable_ranges =
    [(0x27, 0x27), (0x2E, 0x2E), (0x3A, 0x3A), (0x5E, 0x5E), (0x60, 0x60), (0xA8, 0xA8),
     (0xAD, 0xAD), (0xAF, 0xAF), (0xB4, 0xB4), (0xB7, 0xB8), (0x2B0, 0x36F), (0x374, 0x375),
     (0x37A, 0x37A), (0x384, 0x385), (0x387, 0x387), (0x483, 0x489), (0x559, 0x559), (0x55F, 0x55F),
     (0x591, 0x5BD), (0x5BF, 0x5BF), (0x5C1, 0x5C2), (0x5C4, 0x5C5), (0x5C7, 0x5C7), (0x5F4, 0x5F4),
     (0x600, 0x605), (0x610, 0x61A), (0x61C, 0x61C), (0x640, 0x640), (0x64B, 0x65F), (0x670, 0x670),
     (0x6D6, 0x6DD), (0x6DF, 0x6E8), (0x6EA, 0x6ED), (0x70F, 0x70F), (0x711, 0x711), (0x730, 0x74A),
     (0x7A6, 0x7B0), (0x7EB, 0x7F5), (0x7FA, 0x7FA), (0x7FD, 0x7FD), (0x816, 0x82D), (0x859, 0x85B),
     (0x888, 0x888), (0x890, 0x891), (0x898, 0x89F), (0x8C9, 0x902), (0x93A, 0x93A), (0x93C, 0x93C),
     (0x941, 0x948), (0x94D, 0x94D), (0x951, 0x957), (0x962, 0x963), (0x971, 0x971), (0x981, 0x981),
     (0x9BC, 0x9BC), (0x9C1, 0x9C4), (0x9CD, 0x9CD), (0x9E2, 0x9E3), (0x9FE, 0x9FE), (0xA01, 0xA02),
     (0xA3C, 0xA3C), (0xA41, 0xA42), (0xA47, 0xA48), (0xA4B, 0xA4D), (0xA51, 0xA51), (0xA70, 0xA71),
     (0xA75, 0xA75), (0xA81, 0xA82), (0xABC, 0xABC), (0xAC1, 0xAC5), (0xAC7, 0xAC8), (0xACD, 0xACD),
     (0xAE2, 0xAE3), (0xAFA, 0xAFF), (0xB01, 0xB01), (0xB3C, 0xB3C), (0xB3F, 0xB3F), (0xB41, 0xB44),
     (0xB4D, 0xB4D), (0xB55, 0xB56), (0xB62, 0xB63), (0xB82, 0xB82), (0xBC0, 0xBC0), (0xBCD, 0xBCD),
     (0xC00, 0xC00), (0xC04, 0xC04), (0xC3C, 0xC3C), (0xC3E, 0xC40), (0xC46, 0xC48), (0xC4A, 0xC4D),
     (0xC55, 0xC56), (0xC62, 0xC63), (0xC81, 0xC81), (0xCBC, 0xCBC), (0xCBF, 0xCBF), (0xCC6, 0xCC6),
     (0xCCC, 0xCCD), (0xCE2, 0xCE3), (0xD00, 0xD01), (0xD3B, 0xD3C), (0xD41, 0xD44), (0xD4D, 0xD4D),
     (0xD62, 0xD63), (0xD81, 0xD81), (0xDCA, 0xDCA), (0xDD2, 0xDD4), (0xDD6, 0xDD6), (0xE31, 0xE31),
     (0xE34, 0xE3A), (0xE46, 0xE4E), (0xEB1, 0xEB1), (0xEB4, 0xEBC), (0xEC6, 0xEC6), (0xEC8, 0xECD),
     (0xF18, 0xF19), (0xF35, 0xF35), (0xF37, 0xF37), (0xF39, 0xF39), (0xF71, 0xF7E), (0xF80, 0xF84),
     (0xF86, 0xF87), (0xF8D, 0xF97), (0xF99, 0xFBC), (0xFC6, 0xFC6), (0x102D, 0x1030),
     (0x1032, 0x1037), (0x1039, 0x103A), (0x103D, 0x103E), (0x1058, 0x1059), (0x105E, 0x1060),
     (0x1071, 0x1074), (0x1082, 0x1082), (0x1085, 0x1086), (0x108D, 0x108D), (0x109D, 0x109D),
     (0x10FC, 0x10FC), (0x135D, 0x135F), (0x1712, 0x1714), (0x1732, 0x1733), (0x1752, 0x1753),
     (0x1772, 0x1773), (0x17B4, 0x17B5), (0x17B7, 0x17BD), (0x17C6, 0x17C6), (0x17C9, 0x17D3),
     (0x17D7, 0x17D7), (0x17DD, 0x17DD), (0x180B, 0x180F), (0x1843, 0x1843), (0x1885, 0x1886),
     (0x18A9, 0x18A9), (0x1920, 0x1922), (0x1927, 0x1928), (0x1932, 0x1932), (0x1939, 0x193B),
     (0x1A17, 0x1A18), (0x1A1B, 0x1A1B), (0x1A56, 0x1A56), (0x1A58, 0x1A5E), (0x1A60, 0x1A60),
     (0x1A62, 0x1A62), (0x1A65, 0x1A6C), (0x1A73, 0x1A7C), (0x1A7F, 0x1A7F), (0x1AA7, 0x1AA7),
     (0x1AB0, 0x1ACE), (0x1B00, 0x1B03), (0x1B34, 0x1B34), (0x1B36, 0x1B3A), (0x1B3C, 0x1B3C),
     (0x1B42, 0x1B42), (0x1B6B, 0x1B73), (0x1B80, 0x1B81), (0x1BA2, 0x1BA5), (0x1BA8, 0x1BA9),
     (0x1BAB, 0x1BAD), (0x1BE6, 0x1BE6), (0x1BE8, 0x1BE9), (0x1BED, 0x1BED), (0x1BEF, 0x1BF1),
     (0x1C2C, 0x1C33), (0x1C36, 0x1C37), (0x1C78, 0x1C7D), (0x1CD0, 0x1CD2), (0x1CD4, 0x1CE0),
     (0x1CE2, 0x1CE8), (0x1CED, 0x1CED), (0x1CF4, 0x1CF4), (0x1CF8, 0x1CF9), (0x1D2C, 0x1D6A),
     (0x1D78, 0x1D78), (0x1D9B, 0x1DFF), (0x1FBD, 0x1FBD), (0x1FBF, 0x1FC1), (0x1FCD, 0x1FCF),
     (0x1FDD, 0x1FDF), (0x1FED, 0x1FEF), (0x1FFD, 0x1FFE), (0x200B, 0x200F), (0x2018, 0x2019),
     (0x2024, 0x2024), (0x2027, 0x2027), (0x202A, 0x202E), (0x2060, 0x2064), (0x2066, 0x206F),
     (0x2071, 0x2071), (0x207F, 0x207F), (0x2090, 0x209C), (0x20D0, 0x20F0), (0x2C7C, 0x2C7D),
     (0x2CEF, 0x2CF1), (0x2D6F, 0x2D6F), (0x2D7F, 0x2D7F), (0x2DE0, 0x2DFF), (0x2E2F, 0x2E2F),
     (0x3005, 0x3005), (0x302A, 0x302D), (0x3031, 0x3035), (0x303B, 0x303B), (0x3099, 0x309E),
     (0x30FC, 0x30FE), (0xA015, 0xA015), (0xA4F8, 0xA4FD), (0xA60C, 0xA60C), (0xA66F, 0xA672),
     (0xA674, 0xA67D), (0xA67F, 0xA67F), (0xA69C, 0xA69F), (0xA6F0, 0xA6F1), (0xA700, 0xA721),
     (0xA770, 0xA770), (0xA788, 0xA78A), (0xA7F2, 0xA7F4), (0xA7F8, 0xA7F9), (0xA802, 0xA802),
     (0xA806, 0xA806), (0xA80B, 0xA80B), (0xA825, 0xA826), (0xA82C, 0xA82C), (0xA8C4, 0xA8C5),
     (0xA8E0, 0xA8F1), (0xA8FF, 0xA8FF), (0xA926, 0xA92D), (0xA947, 0xA951), (0xA980, 0xA982),
     (0xA9B3, 0xA9B3), (0xA9B6, 0xA9B9), (0xA9BC, 0xA9BD), (0xA9CF, 0xA9CF), (0xA9E5, 0xA9E6),
     (0xAA29, 0xAA2E), (0xAA31, 0xAA32), (0xAA35, 0xAA36), (0xAA43, 0xAA43), (0xAA4C, 0xAA4C),
     (0xAA70, 0xAA70), (0xAA7C, 0xAA7C), (0xAAB0, 0xAAB0), (0xAAB2, 0xAAB4), (0xAAB7, 0xAAB8),
     (0xAABE, 0xAABF), (0xAAC1, 0xAAC1), (0xAADD, 0xAADD), (0xAAEC, 0xAAED), (0xAAF3, 0xAAF4),
     (0xAAF6, 0xAAF6), (0xAB5B, 0xAB5F), (0xAB69, 0xAB6B), (0xABE5, 0xABE5), (0xABE8, 0xABE8),
     (0xABED, 0xABED), (0xFB1E, 0xFB1E), (0xFBB2, 0xFBC2), (0xFE00, 0xFE0F), (0xFE13, 0xFE13),
     (0xFE20, 0xFE2F), (0xFE52, 0xFE52), (0xFE55, 0xFE55), (0xFEFF, 0xFEFF), (0xFF07, 0xFF07),
     (0xFF0E, 0xFF0E), (0xFF1A, 0xFF1A), (0xFF3E, 0xFF3E), (0xFF40, 0xFF40), (0xFF70, 0xFF70),
     (0xFF9E, 0xFF9F), (0xFFE3, 0xFFE3), (0xFFF9, 0xFFFB), (0x101FD, 0x101FD), (0x102E0, 0x102E0),
     (0x10376, 0x1037A), (0x10780, 0x10785), (0x10787, 0x107B0), (0x107B2, 0x107BA),
     (0x10A01, 0x10A03), (0x10A05, 0x10A06), (0x10A0C, 0x10A0F), (0x10A38, 0x10A3A),
     (0x10A3F, 0x10A3F), (0x10AE5, 0x10AE6), (0x10D24, 0x10D27), (0x10EAB, 0x10EAC),
     (0x10F46, 0x10F50), (0x10F82, 0x10F85), (0x11001, 0x11001), (0x11038, 0x11046),
     (0x11070, 0x11070), (0x11073, 0x11074), (0x1107F, 0x11081), (0x110B3, 0x110B6),
     (0x110B9, 0x110BA), (0x110BD, 0x110BD), (0x110C2, 0x110C2), (0x110CD, 0x110CD),
     (0x11100, 0x11102), (0x11127, 0x1112B), (0x1112D, 0x11134), (0x11173, 0x11173),
     (0x11180, 0x11181), (0x111B6, 0x111BE), (0x111C9, 0x111CC), (0x111CF, 0x111CF),
     (0x1122F, 0x11231), (0x11234, 0x11234), (0x11236, 0x11237), (0x1123E, 0x1123E),
     (0x112DF, 0x112DF), (0x112E3, 0x112EA), (0x11300, 0x11301), (0x1133B, 0x1133C),
     (0x11340, 0x11340), (0x11366, 0x1136C), (0x11370, 0x11374), (0x11438, 0x1143F),
     (0x11442, 0x11444), (0x11446, 0x11446), (0x1145E, 0x1145E), (0x114B3, 0x114B8),
     (0x114BA, 0x114BA), (0x114BF, 0x114C0), (0x114C2, 0x114C3), (0x115B2, 0x115B5),
     (0x115BC, 0x115BD), (0x115BF, 0x115C0), (0x115DC, 0x115DD), (0x11633, 0x1163A),
     (0x1163D, 0x1163D), (0x1163F, 0x11640), (0x116AB, 0x116AB), (0x116AD, 0x116AD),
     (0x116B0, 0x116B5), (0x116B7, 0x116B7), (0x1171D, 0x1171F), (0x11722, 0x11725),
     (0x11727, 0x1172B), (0x1182F, 0x11837), (0x11839, 0x1183A), (0x1193B, 0x1193C),
     (0x1193E, 0x1193E), (0x11943, 0x11943), (0x119D4, 0x119D7), (0x119DA, 0x119DB),
     (0x119E0, 0x119E0), (0x11A01, 0x11A0A), (0x11A33, 0x11A38), (0x11A3B, 0x11A3E),
     (0x11A47, 0x11A47), (0x11A51, 0x11A56), (0x11A59, 0x11A5B), (0x11A8A, 0x11A96),
     (0x11A98, 0x11A99), (0x11C30, 0x11C36), (0x11C38, 0x11C3D), (0x11C3F, 0x11C3F),
     (0x11C92, 0x11CA7), (0x11CAA, 0x11CB0), (0x11CB2, 0x11CB3), (0x11CB5, 0x11CB6),
     (0x11D31, 0x11D36), (0x11D3A, 0x11D3A), (0x11D3C, 0x11D3D), (0x11D3F, 0x11D45),
     (0x11D47, 0x11D47), (0x11D90, 0x11D91), (0x11D95, 0x11D95), (0x11D97, 0x11D97),
     (0x11EF3, 0x11EF4), (0x13430, 0x13438), (0x16AF0, 0x16AF4), (0x16B30, 0x16B36),
     (0x16B40, 0x16B43), (0x16F4F, 0x16F4F), (0x16F8F, 0x16F9F), (0x16FE0, 0x16FE1),
     (0x16FE3, 0x16FE4), (0x1AFF0, 0x1AFF3), (0x1AFF5, 0x1AFFB), (0x1AFFD, 0x1AFFE),
     (0x1BC9D, 0x1BC9E), (0x1BCA0, 0x1BCA3), (0x1CF00, 0x1CF2D), (0x1CF30, 0x1CF46),
     (0x1D167, 0x1D169), (0x1D173, 0x1D182), (0x1D185, 0x1D18B), (0x1D1AA, 0x1D1AD),
     (0x1D242, 0x1D244), (0x1DA00, 0x1DA36), (0x1DA3B, 0x1DA6C), (0x1DA75, 0x1DA75),
     (0x1DA84, 0x1DA84), (0x1DA9B, 0x1DA9F), (0x1DAA1, 0x1DAAF), (0x1E000, 0x1E006),
     (0x1E008, 0x1E018), (0x1E01B, 0x1E021), (0x1E023, 0x1E024), (0x1E026, 0x1E02A),
     (0x1E130, 0x1E13D), (0x1E2AE, 0x1E2AE), (0x1E2EC, 0x1E2EF), (0x1E8D0, 0x1E8D6),
     (0x1E944, 0x1E94B), (0x1F3FB, 0x1F3FF), (0xE0001, 0xE0001), (0xE0020, 0xE007F),
     (0xE0100, 0xE01EF)]"

definition lower_runs :: "(int \<times> int \<times> int \<times> int) list" where
  "lower_runs =
    [(0xC0, 0xD6, 1, 0xE0), (0xD8, 0xDE, 1, 0xF8), (0x100, 0x12E, 2, 0x101),
     (0x132, 0x136, 2, 0x133), (0x139, 0x147, 2, 0x13A), (0x14A, 0x176, 2, 0x14B),
     (0x178, 0x178, 1, 0xFF), (0x179, 0x17D, 2, 0x17A), (0x181, 0x181, 1, 0x253),
     (0x182, 0x184, 2, 0x183), (0x186, 0x186, 1, 0x254), (0x187, 0x187, 1, 0x188),
     (0x189, 0x18A, 1, 0x256), (0x18B, 0x18B, 1, 0x18C), (0x18E, 0x18E, 1, 0x1DD),
     (0x18F, 0x18F, 1, 0x259), (0x190, 0x190, 1, 0x25B), (0x191, 0x191, 1, 0x192),
     (0x193, 0x193, 1, 0x260), (0x194, 0x194, 1, 0x263), (0x196, 0x196, 1, 0x269),
     (0x197, 0x197, 1, 0x268), (0x198, 0x198, 1, 0x199), (0x19C, 0x19C, 1, 0x26F),
     (0x19D, 0x19D, 1, 0x272), (0x19F, 0x19F, 1, 0x275), (0x1A0, 0x1A4, 2, 0x1A1),
     (0x1A6, 0x1A6, 1, 0x280), (0x1A7, 0x1A7, 1, 0x1A8), (0x1A9, 0x1A9, 1, 0x283),
     (0x1AC, 0x1AC, 1, 0x1AD), (0x1AE, 0x1AE, 1, 0x288), (0x1AF, 0x1AF, 1, 0x1B0),
     (0x1B1, 0x1B2, 1, 0x28A), (0x1B3, 0x1B5, 2, 0x1B4), (0x1B7, 0x1B7, 1, 0x292),
     (0x1B8, 0x1B8, 1, 0x1B9), (0x1BC, 0x1BC, 1, 0x1BD), (0x1C4, 0x1C4, 1, 0x1C6),
     (0x1C5, 0x1C5, 1, 0x1C6), (0x1C7, 0x1C7, 1, 0x1C9), (0x1C8, 0x1C8, 1, 0x1C9),
     (0x1CA, 0x1CA, 1, 0x1CC), (0x1CB, 0x1DB, 2, 0x1CC), (0x1DE, 0x1EE, 2, 0x1DF),
     (0x1F1, 0x1F1, 1, 0x1F3), (0x1F2, 0x1F4, 2, 0x1F3), (0x1F6, 0x1F6, 1, 0x195),
     (0x1F7, 0x1F7, 1, 0x1BF), (0x1F8, 0x21E, 2, 0x1F9), (0x220, 0x220, 1, 0x19E),
     (0x222, 0x232, 2, 0x223), (0x23A, 0x23A, 1, 0x2C65), (0x23B, 0x23B, 1, 0x23C),
     (0x23D, 0x23D, 1, 0x19A), (0x23E, 0x23E, 1, 0x2C66), (0x241, 0x241, 1, 0x242),
     (0x243, 0x243, 1, 0x180), (0x244, 0x244, 1, 0x289), (0x245, 0x245, 1, 0x28C),
     (0x246, 0x24E, 2, 0x247), (0x370, 0x372, 2, 0x371), (0x376, 0x376, 1, 0x377),
     (0x37F, 0x37F, 1, 0x3F3), (0x386, 0x386, 1, 0x3AC), (0x388, 0x38A, 1, 0x3AD),
     (0x38C, 0x38C, 1, 0x3CC), (0x38E, 0x38F, 1, 0x3CD), (0x391, 0x3A1, 1, 0x3B1),
     (0x3A3, 0x3AB, 1, 0x3C3), (0x3CF, 0x3CF, 1, 0x3D7), (0x3D8, 0x3EE, 2, 0x3D9),
     (0x3F4, 0x3F4, 1, 0x3B8), (0x3F7, 0x3F7, 1, 0x3F8), (0x3F9, 0x3F9, 1, 0x3F2),
     (0x3FA, 0x3FA, 1, 0x3FB), (0x3FD, 0x3FF, 1, 0x37B), (0x400, 0x40F, 1, 0x450),
     (0x410, 0x42F, 1, 0x430), (0x460, 0x480, 2, 0x461), (0x48A, 0x4BE, 2, 0x48B),
     (0x4C0, 0x4C0, 1, 0x4CF), (0x4C1, 0x4CD, 2, 0x4C2), (0x4D0, 0x52E, 2, 0x4D1),
     (0x531, 0x556, 1, 0x561), (0x10A0, 0x10C5, 1, 0x2D00), (0x10C7, 0x10C7, 1, 0x2D27),
     (0x10CD, 0x10CD, 1, 0x2D2D), (0x13A0, 0x13EF, 1, 0xAB70), (0x13F0, 0x13F5, 1, 0x13F8),
     (0x1C90, 0x1CBA, 1, 0x10D0), (0x1CBD, 0x1CBF, 1, 0x10FD), (0x1E00, 0x1E94, 2, 0x1E01),
     (0x1E9E, 0x1E9E, 1, 0xDF), (0x1EA0, 0x1EFE, 2, 0x1EA1), (0x1F08, 0x1F0F, 1, 0x1F00),
     (0x1F18, 0x1F1D, 1, 0x1F10), (0x1F28, 0x1F2F, 1, 0x1F20), (0x1F38, 0x1F3F, 1, 0x1F30),
     (0x1F48, 0x1F4D, 1, 0x1F40), (0x1F59, 0x1F5F, 2, 0x1F51), (0x1F68, 0x1F6F, 1, 0x1F60),
     (0x1F88, 0x1F8F, 1, 0x1F80), (0x1F98, 0x1F9F, 1, 0x1F90), (0x1FA8, 0x1FAF, 1, 0x1FA0),
     (0x1FB8, 0x1FB9, 1, 0x1FB0), (0x1FBA, 0x1FBB, 1, 0x1F70), (0x1FBC, 0x1FBC, 1, 0x1FB3),
     (0x1FC8, 0x1FCB, 1, 0x1F72), (0x1FCC, 0x1FCC, 1, 0x1FC3), (0x1FD8, 0x1FD9, 1, 0x1FD0),
     (0x1FDA, 0x1FDB, 1, 0x1F76), (0x1FE8, 0x1FE9, 1, 0x1FE0), (0x1FEA, 0x1FEB, 1, 0x1F7A),
     (0x1FEC, 0x1FEC, 1, 0x1FE5), (0x1FF8, 0x1FF9, 1, 0x1F78), (0x1FFA, 0x1FFB, 1, 0x1F7C),
     (0x1FFC, 0x1FFC, 1, 0x1FF3), (0x2126, 0x2126, 1, 0x3C9), (0x212A, 0x212A, 1, 0x6B),
     (0x212B, 0x212B, 1, 0xE5), (0x2132, 0x2132, 1, 0x214E), (0x2160, 0x216F, 1, 0x2170),
     (0x2183, 0x2183, 1, 0x2184), (0x24B6, 0x24CF, 1, 0x24D0), (0x2C00, 0x2C2F, 1, 0x2C30),
     (0x2C60, 0x2C60, 1, 0x2C61), (0x2C62, 0x2C62, 1, 0x26B), (0x2C63, 0x2C63, 1, 0x1D7D),
     (0x2C64, 0x2C64, 1, 0x27D), (0x2C67, 0x2C6B, 2, 0x2C68), (0x2C6D, 0x2C6D, 1, 0x251),
     (0x2C6E, 0x2C6E, 1, 0x271), (0x2C6F, 0x2C6F, 1, 0x250), (0x2C70, 0x2C70, 1, 0x252),
     (0x2C72, 0x2C72, 1, 0x2C73), (0x2C75, 0x2C75, 1, 0x2C76), (0x2C7E, 0x2C7F, 1, 0x23F),
     (0x2C80, 0x2CE2, 2, 0x2C81), (0x2CEB, 0x2CED, 2, 0x2CEC), (0x2CF2, 0x2CF2, 1, 0x2CF3),
     (0xA640, 0xA66C, 2, 0xA641), (0xA680, 0xA69A, 2, 0xA681), (0xA722, 0xA72E, 2, 0xA723),
     (0xA732, 0xA76E, 2, 0xA733), (0xA779, 0xA77B, 2, 0xA77A), (0xA77D, 0xA77D, 1, 0x1D79),
     (0xA77E, 0xA786, 2, 0xA77F), (0xA78B, 0xA78B, 1, 0xA78C), (0xA78D, 0xA78D, 1, 0x265),
     (0xA790, 0xA792, 2, 0xA791), (0xA796, 0xA7A8, 2, 0xA797), (0xA7AA, 0xA7AA, 1, 0x266),
     (0xA7AB, 0xA7AB, 1, 0x25C), (0xA7AC, 0xA7AC, 1, 0x261), (0xA7AD, 0xA7AD, 1, 0x26C),
     (0xA7AE, 0xA7AE, 1, 0x26A), (0xA7B0, 0xA7B0, 1, 0x29E), (0xA7B1, 0xA7B1, 1, 0x287),
     (0xA7B2, 0xA7B2, 1, 0x29D), (0xA7B3, 0xA7B3, 1, 0xAB53), (0xA7B4, 0xA7C2, 2, 0xA7B5),
     (0xA7C4, 0xA7C4, 1, 0xA794), (0xA7C5, 0xA7C5, 1, 0x282), (0xA7C6, 0xA7C6, 1, 0x1D8E),
     (0xA7C7, 0xA7C9, 2, 0xA7C8), (0xA7D0, 0xA7D0, 1, 0xA7D1), (0xA7D6, 0xA7D8, 2, 0xA7D7),
     (0xA7F5, 0xA7F5, 1, 0xA7F6), (0xFF21, 0xFF3A, 1, 0xFF41), (0x10400, 0x10427, 1, 0x10428),
     (0x104B0, 0x104D3, 1, 0x104D8), (0x10570, 0x10594, 2, 0x10597), (0x10571, 0x10579, 2, 0x10598),
     (0x1057D, 0x10589, 2, 0x105A4), (0x1058D, 0x10591, 2, 0x105B4), (0x10595, 0x10595, 1, 0x105BC),
     (0x10C80, 0x10CB2, 1, 0x10CC0), (0x118A0, 0x118BF, 1, 0x118C0), (0x16E40, 0x16E5F, 1, 0x16E60),
     (0x1E900, 0x1E921, 1, 0x1E922)]"

definition lower_special :: "(int \<times> int list) list" where
  "lower_special =
    [(0x130, [0x69, 0x307])]"

definition title_runs :: "(int \<times> int \<times> int \<times> int) list" where
  "title_runs =
    [(0xB5, 0xB5, 1, 0x39C), (0xE0, 0xF6, 1, 0xC0), (0xF8, 0xFE, 1, 0xD8), (0xFF, 0xFF, 1, 0x178),
     (0x101, 0x12F, 2, 0x100), (0x131, 0x131, 1, 0x49), (0x133, 0x137, 2, 0x132),
     (0x13A, 0x148, 2, 0x139), (0x14B, 0x177, 2, 0x14A), (0x17A, 0x17E, 2, 0x179),
     (0x17F, 0x17F, 1, 0x53), (0x180, 0x180, 1, 0x243), (0x183, 0x185, 2, 0x182),
     (0x188, 0x188, 1, 0x187), (0x18C, 0x18C, 1, 0x18B), (0x192, 0x192, 1, 0x191),
     (0x195, 0x195, 1, 0x1F6), (0x199, 0x199, 1, 0x198), (0x19A, 0x19A, 1, 0x23D),
     (0x19E, 0x19E, 1, 0x220), (0x1A1, 0x1A5, 2, 0x1A0), (0x1A8, 0x1A8, 1, 0x1A7),
     (0x1AD, 0x1AD, 1, 0x1AC), (0x1B0, 0x1B0, 1, 0x1AF), (0x1B4, 0x1B6, 2, 0x1B3),
     (0x1B9, 0x1B9, 1, 0x1B8), (0x1BD, 0x1BD, 1, 0x1BC), (0x1BF, 0x1BF, 1, 0x1F7),
     (0x1C4, 0x1C4, 1, 0x1C5), (0x1C6, 0x1C6, 1, 0x1C5), (0x1C7, 0x1C7, 1, 0x1C8),
     (0x1C9, 0x1C9, 1, 0x1C8), (0x1CA, 0x1CA, 1, 0x1CB), (0x1CC, 0x1DC, 2, 0x1CB),
     (0x1DD, 0x1DD, 1, 0x18E), (0x1DF, 0x1EF, 2, 0x1DE), (0x1F1, 0x1F1, 1, 0x1F2),
     (0x1F3, 0x1F5, 2, 0x1F2), (0x1F9, 0x21F, 2, 0x1F8), (0x223, 0x233, 2, 0x222),
     (0x23C, 0x23C, 1, 0x23B), (0x23F, 0x240, 1, 0x2C7E), (0x242, 0x242, 1, 0x241),
     (0x247, 0x24F, 2, 0x246), (0x250, 0x250, 1, 0x2C6F), (0x251, 0x251, 1, 0x2C6D),
     (0x252, 0x252, 1, 0x2C70), (0x253, 0x253, 1, 0x181), (0x254, 0x254, 1, 0x186),
     (0x256, 0x257, 1, 0x189), (0x259, 0x259, 1, 0x18F), (0x25B, 0x25B, 1, 0x190),
     (0x25C, 0x25C, 1, 0xA7AB), (0x260, 0x260, 1, 0x193), (0x261, 0x261, 1, 0xA7AC),
     (0x263, 0x263, 1, 0x194), (0x265, 0x265, 1, 0xA78D), (0x266, 0x266, 1, 0xA7AA),
     (0x268, 0x268, 1, 0x197), (0x269, 0x269, 1, 0x196), (0x26A, 0x26A, 1, 0xA7AE),
     (0x26B, 0x26B, 1, 0x2C62), (0x26C, 0x26C, 1, 0xA7AD), (0x26F, 0x26F, 1, 0x19C),
     (0x271, 0x271, 1, 0x2C6E), (0x272, 0x272, 1, 0x19D), (0x275, 0x275, 1, 0x19F),
     (0x27D, 0x27D, 1, 0x2C64), (0x280, 0x280, 1, 0x1A6), (0x282, 0x282, 1, 0xA7C5),
     (0x283, 0x283, 1, 0x1A9), (0x287, 0x287, 1, 0xA7B1), (0x288, 0x288, 1, 0x1AE),
     (0x289, 0x289, 1, 0x244), (0x28A, 0x28B, 1, 0x1B1), (0x28C, 0x28C, 1, 0x245),
     (0x292, 0x292, 1, 0x1B7), (0x29D, 0x29D, 1, 0xA7B2), (0x29E, 0x29E, 1, 0xA7B0),
     (0x345, 0x345, 1, 0x399), (0x371, 0x373, 2, 0x370), (0x377, 0x377, 1, 0x376),
     (0x37B, 0x37D, 1, 0x3FD), (0x3AC, 0x3AC, 1, 0x386), (0x3AD, 0x3AF, 1, 0x388),
     (0x3B1, 0x3C1, 1, 0x391), (0x3C2, 0x3C2, 1, 0x3A3), (0x3C3, 0x3CB, 1, 0x3A3),
     (0x3CC, 0x3CC, 1, 0x38C), (0x3CD, 0x3CE, 1, 0x38E), (0x3D0, 0x3D0, 1, 0x392),
     (0x3D1, 0x3D1, 1, 0x398), (0x3D5, 0x3D5, 1, 0x3A6), (0x3D6, 0x3D6, 1, 0x3A0),
     (0x3D7, 0x3D7, 1, 0x3CF), (0x3D9, 0x3EF, 2, 0x3D8), (0x3F0, 0x3F0, 1, 0x39A),
     (0x3F1, 0x3F1, 1, 0x3A1), (0x3F2, 0x3F2, 1, 0x3F9), (0x3F3, 0x3F3, 1, 0x37F),
     (0x3F5, 0x3F5, 1, 0x395), (0x3F8, 0x3F8, 1, 0x3F7), (0x3FB, 0x3FB, 1, 0x3FA),
     (0x430, 0x44F, 1, 0x410), (0x450, 0x45F, 1, 0x400), (0x461, 0x481, 2, 0x460),
     (0x48B, 0x4BF, 2, 0x48A), (0x4C2, 0x4CE, 2, 0x4C1), (0x4CF, 0x4CF, 1, 0x4C0),
     (0x4D1, 0x52F, 2, 0x4D0), (0x561, 0x586, 1, 0x531), (0x13F8, 0x13FD, 1, 0x13F0),
     (0x1C80, 0x1C80, 1, 0x412), (0x1C81, 0x1C81, 1, 0x414), (0x1C82, 0x1C82, 1, 0x41E),
     (0x1C83, 0x1C84, 1, 0x421), (0x1C85, 0x1C85, 1, 0x422), (0x1C86, 0x1C86, 1, 0x42A),
     (0x1C87, 0x1C87, 1, 0x462), (0x1C88, 0x1C88, 1, 0xA64A), (0x1D79, 0x1D79, 1, 0xA77D),
     (0x1D7D, 0x1D7D, 1, 0x2C63), (0x1D8E, 0x1D8E, 1, 0xA7C6), (0x1E01, 0x1E95, 2, 0x1E00),
     (0x1E9B, 0x1E9B, 1, 0x1E60), (0x1EA1, 0x1EFF, 2, 0x1EA0), (0x1F00, 0x1F07, 1, 0x1F08),
     (0x1F10, 0x1F15, 1, 0x1F18), (0x1F20, 0x1F27, 1, 0x1F28), (0x1F30, 0x1F37, 1, 0x1F38),
     (0x1F40, 0x1F45, 1, 0x1F48), (0x1F51, 0x1F57, 2, 0x1F59), (0x1F60, 0x1F67, 1, 0x1F68),
     (0x1F70, 0x1F71, 1, 0x1FBA), (0x1F72, 0x1F75, 1, 0x1FC8), (0x1F76, 0x1F77, 1, 0x1FDA),
     (0x1F78, 0x1F79, 1, 0x1FF8), (0x1F7A, 0x1F7B, 1, 0x1FEA), (0x1F7C, 0x1F7D, 1, 0x1FFA),
     (0x1F80, 0x1F87, 1, 0x1F88), (0x1F90, 0x1F97, 1, 0x1F98), (0x1FA0, 0x1FA7, 1, 0x1FA8),
     (0x1FB0, 0x1FB1, 1, 0x1FB8), (0x1FB3, 0x1FB3, 1, 0x1FBC), (0x1FBE, 0x1FBE, 1, 0x399),
     (0x1FC3, 0x1FC3, 1, 0x1FCC), (0x1FD0, 0x1FD1, 1, 0x1FD8), (0x1FE0, 0x1FE1, 1, 0x1FE8),
     (0x1FE5, 0x1FE5, 1, 0x1FEC), (0x1FF3, 0x1FF3, 1, 0x1FFC), (0x214E, 0x214E, 1, 0x2132),
     (0x2170, 0x217F, 1, 0x2160), (0x2184, 0x2184, 1, 0x2183), (0x24D0, 0x24E9, 1, 0x24B6),
     (0x2C30, 0x2C5F, 1, 0x2C00), (0x2C61, 0x2C61, 1, 0x2C60), (0x2C65, 0x2C65, 1, 0x23A),
     (0x2C66, 0x2C66, 1, 0x23E), (0x2C68, 0x2C6C, 2, 0x2C67), (0x2C73, 0x2C73, 1, 0x2C72),
     (0x2C76, 0x2C76, 1, 0x2C75), (0x2C81, 0x2CE3, 2, 0x2C80), (0x2CEC, 0x2CEE, 2, 0x2CEB),
     (0x2CF3, 0x2CF3, 1, 0x2CF2), (0x2D00, 0x2D25, 1, 0x10A0), (0x2D27, 0x2D27, 1, 0x10C7),
     (0x2D2D, 0x2D2D, 1, 0x10CD), (0xA641, 0xA66D, 2, 0xA640), (0xA681, 0xA69B, 2, 0xA680),
     (0xA723, 0xA72F, 2, 0xA722), (0xA733, 0xA76F, 2, 0xA732), (0xA77A, 0xA77C, 2, 0xA779),
     (0xA77F, 0xA787, 2, 0xA77E), (0xA78C, 0xA78C, 1, 0xA78B), (0xA791, 0xA793, 2, 0xA790),
     (0xA794, 0xA794, 1, 0xA7C4), (0xA797, 0xA7A9, 2, 0xA796), (0xA7B5, 0xA7C3, 2, 0xA7B4),
     (0xA7C8, 0xA7CA, 2, 0xA7C7), (0xA7D1, 0xA7D1, 1, 0xA7D0), (0xA7D7, 0xA7D9, 2, 0xA7D6),
     (0xA7F6, 0xA7F6, 1, 0xA7F5), (0xAB53, 0xAB53, 1, 0xA7B3), (0xAB70, 0xABBF, 1, 0x13A0),
     (0xFF41, 0xFF5A, 1, 0xFF21), (0x10428, 0x1044F, 1, 0x10400), (0x104D8, 0x104FB, 1, 0x104B0),
     (0x10597, 0x105BB, 2, 0x10570), (0x10598, 0x105A0, 2, 0x10571), (0x105A4, 0x105B0, 2, 0x1057D),
     (0x105B4, 0x105B8, 2, 0x1058D), (0x105BC, 0x105BC, 1, 0x10595), (0x10CC0, 0x10CF2, 1, 0x10C80),
     (0x118C0, 0x118DF, 1, 0x118A0), (0x16E60, 0x16E7F, 1, 0x16E40), (0x1E922, 0x1E943, 1, 0x1E900)]"

definition title_special :: "(int \<times> int list) list" where
  "title_special =
    [(0xDF, [0x53, 0x73]), (0x149, [0x2BC, 0x4E]), (0x1F0, [0x4A, 0x30C]),
     (0x390, [0x399, 0x308, 0x301]), (0x3B0, [0x3A5, 0x308, 0x301]), (0x587, [0x535, 0x582]),
     (0x1E96, [0x48, 0x331]), (0x1E97, [0x54, 0x308]), (0x1E98, [0x57, 0x30A]),
     (0x1E99, [0x59, 0x30A]), (0x1E9A, [0x41, 0x2BE]), (0x1F50, [0x3A5, 0x313]),
     (0x1F52, [0x3A5, 0x313, 0x300]), (0x1F54, [0x3A5, 0x313, 0x301]),
     (0x1F56, [0x3A5, 0x313, 0x342]), (0x1FB2, [0x1FBA, 0x345]), (0x1FB4, [0x386, 0x345]),
     (0x1FB6, [0x391, 0x342]), (0x1FB7, [0x391, 0x342, 0x345]), (0x1FC2, [0x1FCA, 0x345]),
     (0x1FC4, [0x389, 0x345]), (0x1FC6, [0x397, 0x342]), (0x1FC7, [0x397, 0x342, 0x345]),
     (0x1FD2, [0x399, 0x308, 0x300]), (0x1FD3, [0x399, 0x308, 0x301]), (0x1FD6, [0x399, 0x342]),
     (0x1FD7, [0x399, 0x308, 0x342]), (0x1FE2, [0x3A5, 0x308, 0x300]),
     (0x1FE3, [0x3A5, 0x308, 0x301]), (0x1FE4, [0x3A1, 0x313]), (0x1FE6, [0x3A5, 0x342]),
     (0x1FE7, [0x3A5, 0x308, 0x342]), (0x1FF2, [0x1FFA, 0x345]), (0x1FF4, [0x38F, 0x345]),
     (0x1FF6, [0x3A9, 0x342]), (0x1FF7, [0x3A9, 0x342, 0x345]), (0xFB00, [0x46, 0x66]),
     (0xFB01, [0x46, 0x69]), (0xFB02, [0x46, 0x6C]), (0xFB03, [0x46, 0x66, 0x69]),
     (0xFB04, [0x46, 0x66, 0x6C]), (0xFB05, [0x53, 0x74]), (0xFB06, [0x53, 0x74]),
     (0xFB13, [0x544, 0x576]), (0xFB14, [0x544, 0x565]), (0xFB15, [0x544, 0x56B]),
     (0xFB16, [0x54E, 0x576]), (0xFB17, [0x544, 0x56D])]"

text \<open>
  The full case mapping of a character: one or more characters. The letters of ASCII are
  mapped among themselves; a byte that is no character of a text is kept.
\<close>

definition case_full ::
  "(int \<times> int \<times> int \<times> int) list \<Rightarrow> (int \<times> int list) list \<Rightarrow> string \<Rightarrow> string list" where
  "case_full runs special u =
     (case code_point u of
        None \<Rightarrow> [u]
      | Some cp \<Rightarrow>
          (case map_of special cp of
             Some cps \<Rightarrow> map utf8_encode cps
           | None \<Rightarrow> (case run_lookup cp runs of Some t \<Rightarrow> [utf8_encode t] | None \<Rightarrow> [u])))"

fun to_lower_full :: "string \<Rightarrow> string list" where
  "to_lower_full [c] = (if is_ascii c then [[to_lower c]] else [[c]])"
| "to_lower_full u = case_full lower_runs lower_special u"

fun to_title_full :: "string \<Rightarrow> string list" where
  "to_title_full [c] = (if is_ascii c then [[to_upper c]] else [[c]])"
| "to_title_full u = case_full title_runs title_special u"

fun is_cased_char :: "string \<Rightarrow> bool" where
  "is_cased_char [c] = is_cased c"
| "is_cased_char u =
     (case code_point u of None \<Rightarrow> False | Some cp \<Rightarrow> in_ranges cp cased_ranges)"

definition is_case_ignorable :: "string \<Rightarrow> bool" where
  "is_case_ignorable u =
     (case code_point u of None \<Rightarrow> False | Some cp \<Rightarrow> in_ranges cp case_ignorable_ranges)"

text \<open>
  The capital sigma is the one character whose lower case depends on the text around it:
  it becomes the final sigma when, case-ignorable characters aside, a cased character
  stands before it and none after it. \<open>preceding\<close> holds the characters before it,
  the nearest first, and \<open>following\<close> those after it.
\<close>

definition capital_sigma :: string where
  "capital_sigma = [CHR 0xCE, CHR 0xA3]"

definition final_sigma :: string where
  "final_sigma = [CHR 0xCF, CHR 0x82]"

definition small_sigma :: string where
  "small_sigma = [CHR 0xCF, CHR 0x83]"

definition handle_capital_sigma :: "string list \<Rightarrow> string list \<Rightarrow> string" where
  "handle_capital_sigma preceding following =
     (if (case dropWhile is_case_ignorable preceding of [] \<Rightarrow> False | p # _ \<Rightarrow> is_cased_char p)
         \<and> (case dropWhile is_case_ignorable following of [] \<Rightarrow> True | n # _ \<Rightarrow> \<not> is_cased_char n)
      then final_sigma else small_sigma)"

definition lower_ucs4 :: "string list \<Rightarrow> string \<Rightarrow> string list \<Rightarrow> string list" where
  "lower_ucs4 preceding u following =
     (if u = capital_sigma then [handle_capital_sigma preceding following] else to_lower_full u)"

fun do_lower :: "string list \<Rightarrow> string list \<Rightarrow> string list" where
  "do_lower preceding [] = []"
| "do_lower preceding (u # following) = lower_ucs4 preceding u following @ do_lower (u # preceding) following"

text \<open>\<open>s.lower()\<close>.\<close>

definition str_lower :: "string \<Rightarrow> string" where
  "str_lower s = concat (do_lower [] (utf8_chars s))"

text \<open>
  \<open>s.title()\<close>: a character is put in title case when the character before it is not
  cased, and in lower case otherwise.
\<close>

fun do_title :: "bool \<Rightarrow> string list \<Rightarrow> string list \<Rightarrow> string list" where
  "do_title previous_is_cased preceding [] = []"
| "do_title previous_is_cased preceding (u # following) =
     (if previous_is_cased then lower_ucs4 preceding u following else to_title_full u)
     @ do_title (is_cased_char u) (u # preceding) following"

definition str_title :: "string \<Rightarrow> string" where
  "str_title s = concat (do_title False [] (utf8_chars s))"

text \<open>\<open>s.strip()\<close>: the characters for which \<open>str.isspace\<close> holds are removed at both ends.\<close>

definition is_space_char :: "string \<Rightarrow> bool" where
  "is_space_char u = (u \<in> set whitespace_chars)"

definition str_strip :: "string \<Rightarrow> string" where
  "str_strip s =
     concat (rev (dropWhile is_space_char (rev (dropWhile is_space_char (utf8_chars s)))))"

subsection \<open>Paths and the file system\<close>

text \<open>\<open>Path.name\<close>: the last component.\<close>

definition path_name :: "string \<Rightarrow> string" where
  "path_name p = rev (takeWhile (\<lambda>c. c \<noteq> CHR ''/'') (rev p))"

text \<open>
  \<open>Path.stem\<close>: the name without its last suffix. With \<open>i\<close> the index of the last dot
  of the name, the stem is \<open>name[:i]\<close> when \<open>0 < i < len(name) - 1\<close> and the name itself
  otherwise; \<open>k\<close> below is the number of characters after the last dot.
\<close>

definition path_stem :: "string \<Rightarrow> string" where
  "path_stem p =
     (let name = path_name p; k = length (takeWhile (\<lambda>c. c \<noteq> CHR ''.'') (rev name))
      in if CHR ''.'' \<in> set name \<and> 0 < k \<and> Suc k < length name
         then take (length name - Suc k) name else name)"

text \<open>\<open>Path.parts\<close>, by which \<open>sorted\<close> compares two paths.\<close>

definition path_parts :: "string \<Rightarrow> string list" where
  "path_parts p = str_split (CHR ''/'') p"

definition sorted_paths :: "string list \<Rightarrow> string list" where
  "sorted_paths ps = sort_key path_parts ps"

type_synonym fs = "(string \<times> string) list"

datatype error = FileNotFoundError | ValueError

text \<open>\<open>Path.read_text\<close> raises \<open>FileNotFoundError\<close> on a missing file: the value \<open>None\<close>.\<close>

definition read_text :: "fs \<Rightarrow> string \<Rightarrow> string option" where
  "read_text files p = map_of files p"

definition path_exists :: "fs \<Rightarrow> string \<Rightarrow> bool" where
  "path_exists files p = (read_text files p \<noteq> None)"

definition write_text :: "fs \<Rightarrow> string \<Rightarrow> string \<Rightarrow> fs" where
  "write_text files p s = AList.update p s files"

text \<open>\<open>shutil.copy2(src, dst)\<close>: the destination is written or overwritten.\<close>

definition copy2 :: "fs \<Rightarrow> string \<Rightarrow> string \<Rightarrow> error + fs" where
  "copy2 files src dst =
     (case read_text files src of
        None \<Rightarrow> Inl FileNotFoundError
      | Some content \<Rightarrow> Inr (write_text files dst content))"

text \<open>\<open>path.relative_to(self.docs_path)\<close> raises \<open>ValueError\<close> outside \<open>docs\<close>.\<close>

definition docs_relative :: "string \<Rightarrow> string option" where
  "docs_relative p = (if prefix ''docs/'' p then Some (drop 5 p) else None)"

subsection \<open>The constants of the builder\<close>

definition repo_url :: string where
  "repo_url = ''https://github.com/Fabbiologia/vibe-coding-for-ecology''"

definition workflow_categories :: "(string \<times> string) list" where
  "workflow_categories =
    [(''00_agentic_prompt_templates'', [CHR 0xF0, CHR 0x9F, CHR 0xA4, CHR 0x96] @ '' Agentic AI Templates''),
     (''01_data_wrangling'', [CHR 0xF0, CHR 0x9F, CHR 0xA7, CHR 0xB9] @ '' Data Wrangling''),
     (''02_visualization'', [CHR 0xF0, CHR 0x9F, CHR 0x93, CHR 0x8A] @ '' Visualization''),
     (''03_univariate_models'', [CHR 0xF0, CHR 0x9F, CHR 0x93, CHR 0x88] @ '' Univariate Models''),
     (''04_multivariate_analysis'', [CHR 0xF0, CHR 0x9F, CHR 0x94, CHR 0xAC] @ '' Multivariate Analysis''),
     (''05_diversity_metrics'', [CHR 0xF0, CHR 0x9F, CHR 0x8C, CHR 0xBF] @ '' Diversity Metrics''),
     (''06_mixed_effects_models'', [CHR 0xF0, CHR 0x9F, CHR 0x94, CHR 0x84] @ '' Mixed Effects Models''),
     (''07_time_series_analysis'', [CHR 0xE2, CHR 0x8F, CHR 0xB0] @ '' Time Series Analysis''),
     (''08_spatial_analysis'', [CHR 0xF0, CHR 0x9F, CHR 0x97, CHR 0xBA, CHR 0xEF, CHR 0xB8, CHR 0x8F] @ '' Spatial Analysis''),
     (''09_species_distribution'', [CHR 0xF0, CHR 0x9F, CHR 0xA6, CHR 0x8B] @ '' Species Distribution''),
     (''10_population_simulation'', [CHR 0xF0, CHR 0x9F, CHR 0x94, CHR 0xA2] @ '' Population Simulation'')]"

definition category_keys :: "string list" where
  "category_keys = map fst workflow_categories"

subsection \<open>find\_all\_markdown\_files\<close>

text \<open>
  \<open>base_path.glob("*.md")\<close> lists the markdown files of the root, and
  \<open>dir.glob("**/*.md")\<close> those at any depth below \<open>dir\<close>; a directory that does not
  exist has none.
\<close>

definition glob_md_root :: "fs \<Rightarrow> string list" where
  "glob_md_root files =
     [p \<leftarrow> map fst files. CHR ''/'' \<notin> set p \<and> suffix ''.md'' (path_name p)]"

definition glob_md_under :: "string \<Rightarrow> fs \<Rightarrow> string list" where
  "glob_md_under dir files =
     [p \<leftarrow> map fst files. prefix (dir @ ''/'') p \<and> suffix ''.md'' (path_name p)]"

definition find_all_markdown_files :: "fs \<Rightarrow> string list" where
  "find_all_markdown_files files =
     glob_md_root files @ glob_md_under ''workflows'' files
     @ concat (map (\<lambda>subdir. glob_md_under subdir files) [''examples'', ''rules'', ''manuscript''])"

subsection \<open>copy\_and\_organize\_files\<close>

record file_map =
  fm_workflows :: "string list"
  fm_examples :: "string list"
  fm_rules :: "string list"
  fm_main :: "string list"

definition empty_file_map :: file_map where
  "empty_file_map = \<lparr>fm_workflows = [], fm_examples = [], fm_rules = [], fm_main = []\<rparr>"

text \<open>
  One round of the loop over the discovered files. The path relative to the base
  directory is the path itself. A file that meets none of the four tests is passed over.
\<close>

definition copy_file :: "fs \<times> file_map \<Rightarrow> string \<Rightarrow> error + fs \<times> file_map" where
  "copy_file st file_path =
     (let files = fst st; fm = snd st; relative_path = file_path in
      if contains ''workflows'' relative_path then
        (let dest_path = ''docs/workflows/'' @ path_name relative_path in
         case copy2 files file_path dest_path of
           Inl e \<Rightarrow> Inl e
         | Inr files' \<Rightarrow> Inr (files', fm\<lparr>fm_workflows := fm_workflows fm @ [dest_path]\<rparr>))
      else if contains ''examples'' relative_path then
        (let dest_path = ''docs/examples/'' @ path_name relative_path in
         case copy2 files file_path dest_path of
           Inl e \<Rightarrow> Inl e
         | Inr files' \<Rightarrow> Inr (files', fm\<lparr>fm_examples := fm_examples fm @ [dest_path]\<rparr>))
      else if contains ''rules'' relative_path then
        (let dest_path = ''docs/rules/'' @ path_name relative_path in
         case copy2 files file_path dest_path of
           Inl e \<Rightarrow> Inl e
         | Inr files' \<Rightarrow> Inr (files', fm\<lparr>fm_rules := fm_rules fm @ [dest_path]\<rparr>))
      else if path_name file_path \<in> set [''README.md'', ''CODE_OF_CONDUCT.md''] then
        (let dest_path = ''docs/'' @ path_name file_path in
         case copy2 files file_path dest_path of
           Inl e \<Rightarrow> Inl e
         | Inr files' \<Rightarrow> Inr (files', fm\<lparr>fm_main := fm_main fm @ [dest_path]\<rparr>))
      else Inr (files, fm))"

fun copy_loop :: "fs \<times> file_map \<Rightarrow> string list \<Rightarrow> error + fs \<times> file_map" where
  "copy_loop st [] = Inr st"
| "copy_loop st (file_path # rest) =
     (case copy_file st file_path of Inl e \<Rightarrow> Inl e | Inr st' \<Rightarrow> copy_loop st' rest)"

definition copy_and_organize_files :: "fs \<Rightarrow> error + fs \<times> file_map" where
  "copy_and_organize_files files =
     copy_loop (files, empty_file_map) (find_all_markdown_files files)"

subsection \<open>add\_reproduction\_badges\<close>

definition badge_sentinel :: string where
  "badge_sentinel = ''![Reproducible](https://img.shields.io/badge/Reproducible-Yes-brightgreen)''"

definition badge_section :: string where
  "badge_section =
     ''\<newline>'' @
     ''[![Reproducible](https://img.shields.io/badge/Reproducible-Yes-brightgreen)](https://github.com/Fabbiologia/vibe-coding-for-ecology)\<newline>'' @
     ''[![R](https://img.shields.io/badge/R-4.0+-blue)](https://www.r-project.org/)\<newline>'' @
     ''[![Tidyverse](https://img.shields.io/badge/Tidyverse-Compatible-orange)](https://www.tidyverse.org/)\<newline>'' @
     ''[![License](https://img.shields.io/badge/License-MIT-yellow.svg)](https://opensource.org/licenses/MIT)\<newline>'' @
     ''\<newline>''"

text \<open>
  The loop over \<open>enumerate(lines)\<close>: the badge block goes in after the first line that
  starts with the heading marker and has an index below 10, and the loop ends there.
\<close>

fun insert_badge :: "nat \<Rightarrow> string list \<Rightarrow> string list" where
  "insert_badge i [] = []"
| "insert_badge i (line # rest) =
     (if startswith line ''#'' \<and> i < 10 then line # badge_section # rest
      else line # insert_badge (Suc i) rest)"

definition add_reproduction_badges :: "fs \<Rightarrow> string \<Rightarrow> fs" where
  "add_reproduction_badges files file_path =
     (case read_text files file_path of
        None \<Rightarrow> files
      | Some content \<Rightarrow>
          if contains badge_sentinel content then files
          else write_text files file_path (str_join [nl] (insert_badge 0 (str_split nl content))))"

subsection \<open>find\_related\_workflows\<close>

definition relationships :: "(string \<times> string list) list" where
  "relationships =
    [(''data_wrangling'', [''visualization'', ''univariate'', ''multivariate'']),
     (''visualization'', [''data_wrangling'', ''univariate'', ''multivariate'']),
     (''univariate'', [''data_wrangling'', ''visualization'', ''multivariate'']),
     (''multivariate'', [''data_wrangling'', ''visualization'', ''diversity'']),
     (''diversity'', [''multivariate'', ''spatial'', ''mixed_effects'']),
     (''mixed_effects'', [''univariate'', ''diversity'', ''population'']),
     (''spatial'', [''diversity'', ''species_distribution'', ''time_series'']),
     (''species_distribution'', [''spatial'', ''multivariate'', ''mixed_effects'']),
     (''time_series'', [''spatial'', ''mixed_effects'', ''population'']),
     (''population'', [''mixed_effects'', ''time_series'', ''species_distribution''])]"

text \<open>
  The loop \<open>for category in self.workflow_categories.keys()\<close> that both
  \<open>find_related_workflows\<close> and \<open>determine_category\<close> run over the path: the first key, in
  the order of the table, that occurs in the path.
\<close>

fun first_category_key :: "string list \<Rightarrow> string \<Rightarrow> string option" where
  "first_category_key [] file_str = None"
| "first_category_key (category # rest) file_str =
     (if contains category file_str then Some category else first_category_key rest file_str)"

text \<open>\<open>category.split('_', 1)[1] if '_' in category else category\<close>.\<close>

definition category_type :: "string \<Rightarrow> string" where
  "category_type category =
     (if CHR ''_'' \<in> set category then tl (dropWhile (\<lambda>c. c \<noteq> CHR ''_'') category)
      else category)"

definition find_current_type :: "string \<Rightarrow> string option" where
  "find_current_type file_path = map_option category_type (first_category_key category_keys file_path)"

text \<open>The inner loop over \<open>workflow_links.items()\<close> for one related type.\<close>

fun collect_links ::
  "string \<Rightarrow> (string \<times> string) list \<Rightarrow> (string \<times> string) list \<Rightarrow> (string \<times> string) list" where
  "collect_links related_type [] related = related"
| "collect_links related_type ((workflow_name, workflow_path) # rest) related =
     collect_links related_type rest
       (if contains related_type (str_lower workflow_name)
        then AList.update (str_title (str_replace (CHR ''_'') (CHR '' '') workflow_name)) workflow_path related
        else related)"

text \<open>The outer loop over \<open>relationships[current_type]\<close>.\<close>

fun collect_related ::
  "string list \<Rightarrow> (string \<times> string) list \<Rightarrow> (string \<times> string) list \<Rightarrow> (string \<times> string) list" where
  "collect_related [] workflow_links related = related"
| "collect_related (related_type # rest) workflow_links related =
     collect_related rest workflow_links (collect_links related_type workflow_links related)"

text \<open>\<open>if current_type and current_type in relationships\<close>, from \<open>current_type\<close> on.\<close>

definition related_for_type :: "string option \<Rightarrow> (string \<times> string) list \<Rightarrow> (string \<times> string) list" where
  "related_for_type current_type workflow_links =
     (case current_type of
        None \<Rightarrow> []
      | Some t \<Rightarrow>
          if t = [] then []
          else (case map_of relationships t of
                  None \<Rightarrow> []
                | Some related_types \<Rightarrow> collect_related related_types workflow_links []))"

text \<open>
  The method reads the file (and puts the text in lower case) but never looks at the
  text: the result depends on the path and the links only.
\<close>

definition find_related_workflows ::
  "fs \<Rightarrow> string \<Rightarrow> (string \<times> string) list \<Rightarrow> error + (string \<times> string) list" where
  "find_related_workflows files file_path workflow_links =
     (case read_text files file_path of
        None \<Rightarrow> Inl FileNotFoundError
      | Some content \<Rightarrow> Inr (related_for_type (find_current_type file_path) workflow_links))"

subsection \<open>add\_cross\_references\_to\_file and create\_cross\_references\<close>

definition xref_header :: string where
  "xref_header = ''## Related Workflows''"

definition link_lines :: "(string \<times> string) list \<Rightarrow> string" where
  "link_lines related =
     concat (map (\<lambda>(workflow_name, workflow_path).
                    ''- ['' @ workflow_name @ '']('' @ workflow_path @ '')\<newline>'') related)"

definition cross_ref_section :: "(string \<times> string) list \<Rightarrow> string" where
  "cross_ref_section related =
     ''\<newline>## Related Workflows\<newline>\<newline>'' @ link_lines related @ ''\<newline>''"

text \<open>
  \<open>for i in range(len(lines) - 1, -1, -1)\<close>: called with the number of lines, it finds
  the last line that starts with \<open>'## '\<close> and holds \<open>'Summary'\<close>.
\<close>

fun find_summary :: "string list \<Rightarrow> nat \<Rightarrow> nat option" where
  "find_summary ls 0 = None"
| "find_summary ls (Suc i) =
     (if startswith (ls ! i) ''## '' \<and> contains ''Summary'' (ls ! i) then Some i
      else find_summary ls i)"

definition add_cross_references_to_file ::
  "fs \<Rightarrow> string \<Rightarrow> (string \<times> string) list \<Rightarrow> error + fs" where
  "add_cross_references_to_file files file_path workflow_links =
     (case read_text files file_path of
        None \<Rightarrow> Inr files
      | Some content \<Rightarrow>
          if contains xref_header content then Inr files
          else (case find_related_workflows files file_path workflow_links of
                  Inl e \<Rightarrow> Inl e
                | Inr related \<Rightarrow>
                    if related = [] then Inr files
                    else (let ls = str_split nl content in
                          case find_summary ls (length ls) of
                            Some i \<Rightarrow>
                              Inr (write_text files file_path
                                     (str_join [nl] (take i ls @ [cross_ref_section related] @ drop i ls)))
                          | None \<Rightarrow>
                              Inr (write_text files file_path (content @ cross_ref_section related)))))"

text \<open>The first loop of \<open>create_cross_references\<close>: the first file of each stem gives the link.\<close>

fun build_workflow_links :: "string list \<Rightarrow> (string \<times> string) list \<Rightarrow> (string \<times> string) list" where
  "build_workflow_links [] workflow_links = workflow_links"
| "build_workflow_links (workflow_file # rest) workflow_links =
     build_workflow_links rest
       (if path_stem workflow_file \<notin> set (map fst workflow_links)
        then workflow_links @ [(path_stem workflow_file, ''workflows/'' @ path_name workflow_file)]
        else workflow_links)"

fun cross_reference_loop :: "fs \<Rightarrow> string list \<Rightarrow> (string \<times> string) list \<Rightarrow> error + fs" where
  "cross_reference_loop files [] workflow_links = Inr files"
| "cross_reference_loop files (workflow_file # rest) workflow_links =
     (case add_cross_references_to_file files workflow_file workflow_links of
        Inl e \<Rightarrow> Inl e
      | Inr files' \<Rightarrow> cross_reference_loop files' rest workflow_links)"

definition create_cross_references :: "fs \<Rightarrow> file_map \<Rightarrow> error + fs" where
  "create_cross_references files fm =
     cross_reference_loop files (fm_workflows fm) (build_workflow_links (fm_workflows fm) [])"

subsection \<open>determine\_category\<close>

definition determine_category :: "string \<Rightarrow> string" where
  "determine_category file_path =
     (case first_category_key category_keys file_path of
        Some category_key \<Rightarrow> category_key
      | None \<Rightarrow>
          (let name = str_lower (path_stem file_path) in
           if contains ''data'' name \<or> contains ''wrangle'' name \<or> contains ''tidy'' name
             then ''01_data_wrangling''
           else if contains ''viz'' name \<or> contains ''plot'' name \<or> contains ''ggplot'' name
             then ''02_visualization''
           else if contains ''model'' name \<or> contains ''lm'' name \<or> contains ''glm'' name
             then ''03_univariate_models''
           else if contains ''pca'' name \<or> contains ''ordination'' name \<or> contains ''multivariate'' name
             then ''04_multivariate_analysis''
           else if contains ''diversity'' name \<or> contains ''shannon'' name \<or> contains ''richness'' name
             then ''05_diversity_metrics''
           else if contains ''mixed'' name \<or> contains ''lmm'' name \<or> contains ''glmm'' name
             then ''06_mixed_effects_models''
           else if contains ''spatial'' name \<or> contains ''gis'' name \<or> contains ''raster'' name
             then ''08_spatial_analysis''
           else if contains ''species'' name \<or> contains ''distribution'' name \<or> contains ''sdm'' name
             then ''09_species_distribution''
           else if contains ''time'' name \<or> contains ''series'' name \<or> contains ''temporal'' name
             then ''07_time_series_analysis''
           else if contains ''population'' name \<or> contains ''simulation'' name \<or> contains ''agent'' name
             then ''10_population_simulation''
           else ''00_other''))"

subsection \<open>extract\_workflow\_title and extract\_title\<close>

text \<open>
  Each pattern is \<open>^PRE(.+)$\<close> under \<open>re.MULTILINE\<close>, where \<open>PRE\<close> is a fixed text: a
  line matches when it starts with \<open>PRE\<close> and goes on with at least one character, and
  the group is the rest of the line. \<open>re.search\<close> returns the first line that matches.
\<close>

definition line_match :: "string \<Rightarrow> string \<Rightarrow> string option" where
  "line_match pre l =
     (if prefix pre l \<and> length pre < length l then Some (drop (length pre) l) else None)"

fun first_line_match :: "string \<Rightarrow> string list \<Rightarrow> string option" where
  "first_line_match pre [] = None"
| "first_line_match pre (l # ls) =
     (case line_match pre l of Some g \<Rightarrow> Some g | None \<Rightarrow> first_line_match pre ls)"

definition re_search_line :: "string \<Rightarrow> string \<Rightarrow> string option" where
  "re_search_line pre content = first_line_match pre (str_split nl content)"

definition title_patterns :: "string list" where
  "title_patterns = [''# Vibe Workflow: '', ''**Goal:** '', ''# '']"

fun try_patterns :: "string list \<Rightarrow> string \<Rightarrow> string option" where
  "try_patterns [] content = None"
| "try_patterns (pattern # rest) content =
     (case re_search_line pattern content of
        Some g \<Rightarrow> Some (str_strip g)
      | None \<Rightarrow> try_patterns rest content)"

text \<open>\<open>file_path.stem.replace('_', ' ').title()\<close>.\<close>

definition filename_title :: "string \<Rightarrow> string" where
  "filename_title file_path = str_title (str_replace (CHR ''_'') (CHR '' '') (path_stem file_path))"

definition extract_workflow_title :: "fs \<Rightarrow> string \<Rightarrow> string" where
  "extract_workflow_title files file_path =
     (case read_text files file_path of
        None \<Rightarrow> filename_title file_path
      | Some content \<Rightarrow>
          (case try_patterns title_patterns content of
             Some title \<Rightarrow> title
           | None \<Rightarrow> filename_title file_path))"

definition extract_title :: "fs \<Rightarrow> string \<Rightarrow> string" where
  "extract_title files file_path =
     (case read_text files file_path of
        None \<Rightarrow> filename_title file_path
      | Some content \<Rightarrow>
          (case re_search_line ''# '' content of
             Some g \<Rightarrow> str_strip g
           | None \<Rightarrow> filename_title file_path))"

subsection \<open>generate\_index\_readme\<close>

definition index_intro :: string where
  "index_intro =
     ''# '' @ [CHR 0xF0, CHR 0x9F, CHR 0x8C, CHR 0xB1] @ '' Vibe Coding for Ecology: Documentation Index\<newline>'' @
     ''\<newline>'' @
     ''Welcome to the complete documentation for the **Vibe Coding for Ecology** project! This index provides organized access to all workflows, examples, and guidelines for agentic AI-assisted ecological analysis.\<newline>'' @
     ''\<newline>'' @
     ''[![Reproducible](https://img.shields.io/badge/Reproducible-Yes-brightgreen)]('' @ repo_url @ '')\<newline>'' @
     ''[![R](https://img.shields.io/badge/R-4.0+-blue)](https://www.r-project.org/)\<newline>'' @
     ''[![Tidyverse](https://img.shields.io/badge/Tidyverse-Compatible-orange)](https://www.tidyverse.org/)\<newline>'' @
     ''[![License](https://img.shields.io/badge/License-MIT-yellow.svg)](https://opensource.org/licenses/MIT)\<newline>'' @
     ''\<newline>'' @
     ''## '' @ [CHR 0xF0, CHR 0x9F, CHR 0x8E, CHR 0xAF] @ '' Quick Start\<newline>'' @
     ''\<newline>'' @
     ''1. **For AI Agents**: Copy any workflow template and paste into your AI coding environment\<newline>'' @
     ''2. **For Researchers**: Clone the repository and follow the structured workflows\<newline>'' @
     ''3. **For Contributors**: Check the rules and contributing guidelines\<newline>'' @
     ''\<newline>'' @
     ''## '' @ [CHR 0xF0, CHR 0x9F, CHR 0x93, CHR 0x9A] @ '' Documentation Structure\<newline>'' @
     ''\<newline>'' @
     ''### '' @ [CHR 0xF0, CHR 0x9F, CHR 0x94, CHR 0xAC] @ '' Workflow Categories\<newline>'' @
     ''\<newline>''"

definition index_examples_heading :: string where
  "index_examples_heading =
     ''\<newline>'' @
     ''\<newline>'' @
     ''### '' @ [CHR 0xF0, CHR 0x9F, CHR 0x93, CHR 0x96] @ '' Examples & Templates\<newline>'' @
     ''\<newline>''"

definition index_rules_heading :: string where
  "index_rules_heading =
     ''\<newline>'' @
     ''\<newline>'' @
     ''### '' @ [CHR 0xF0, CHR 0x9F, CHR 0x93, CHR 0x8B] @ '' Rules & Guidelines\<newline>'' @
     ''\<newline>''"

definition index_main_heading :: string where
  "index_main_heading =
     ''\<newline>'' @
     ''\<newline>'' @
     ''### '' @ [CHR 0xF0, CHR 0x9F, CHR 0x8F, CHR 0xA0] @ '' Main Documentation\<newline>'' @
     ''\<newline>''"

definition index_outro :: string where
  "index_outro =
     ''\<newline>'' @
     ''\<newline>'' @
     ''## '' @ [CHR 0xF0, CHR 0x9F, CHR 0x94, CHR 0x84] @ '' Workflow Dependencies\<newline>'' @
     ''\<newline>'' @
     ''The workflows are designed to build upon each other:\<newline>'' @
     ''\<newline>'' @
     [CHR 0x60, CHR 0x60, CHR 0x60] @ ''mermaid\<newline>'' @
     ''graph TD\<newline>'' @
     ''    A[00_agentic_prompt_templates] --> B[01_data_wrangling]\<newline>'' @
     ''    B --> C[02_visualization]\<newline>'' @
     ''    B --> D[03_univariate_models]\<newline>'' @
     ''    B --> E[04_multivariate_analysis]\<newline>'' @
     ''    E --> F[05_diversity_metrics]\<newline>'' @
     ''    D --> G[06_mixed_effects_models]\<newline>'' @
     ''    F --> H[08_spatial_analysis]\<newline>'' @
     ''    H --> I[09_species_distribution]\<newline>'' @
     ''    G --> J[10_population_simulation]\<newline>'' @
     ''    H --> K[07_time_series_analysis]\<newline>'' @
     [CHR 0x60, CHR 0x60, CHR 0x60] @ ''\<newline>'' @
     ''\<newline>'' @
     ''## '' @ [CHR 0xF0, CHR 0x9F, CHR 0xA7, CHR 0xAA] @ '' Quality Assurance\<newline>'' @
     ''\<newline>'' @
     ''All documentation has been:\<newline>'' @
     ''- '' @ [CHR 0xE2, CHR 0x9C, CHR 0x85] @ '' **Linted** with markdownlint for consistency\<newline>'' @
     ''- '' @ [CHR 0xE2, CHR 0x9C, CHR 0x85] @ '' **Cross-referenced** for workflow interconnections\<newline>'' @
     ''- '' @ [CHR 0xE2, CHR 0x9C, CHR 0x85] @ '' **Badge-enhanced** for reproducibility tracking\<newline>'' @
     ''- '' @ [CHR 0xE2, CHR 0x9C, CHR 0x85] @ '' **Organized** in logical categories\<newline>'' @
     ''- '' @ [CHR 0xE2, CHR 0x9C, CHR 0x85] @ '' **Validated** for internal link integrity\<newline>'' @
     ''\<newline>'' @
     ''## '' @ [CHR 0xF0, CHR 0x9F, CHR 0x9A, CHR 0x80] @ '' Getting Started\<newline>'' @
     ''\<newline>'' @
     ''### For AI Agents\<newline>'' @
     ''1. Browse the workflow categories above\<newline>'' @
     ''2. Copy the relevant workflow template\<newline>'' @
     ''3. Paste into your AI coding environment (Claude, ChatGPT, Cursor, etc.)\<newline>'' @
     ''4. Adapt to your specific research question\<newline>'' @
     ''\<newline>'' @
     ''### For Manual Use\<newline>'' @
     ''1. Clone the repository: '' @ [CHR 0x60] @ ''git clone '' @ repo_url @ [CHR 0x60] @ ''\<newline>'' @
     ''2. Navigate to the workflow of interest\<newline>'' @
     ''3. Follow the 5-part structure: '' @ [CHR 0xF0, CHR 0x9F, CHR 0xAA, CHR 0xB4] @ '' Setup '' @ [CHR 0xE2, CHR 0x86, CHR 0x92] @ '' '' @ [CHR 0xF0, CHR 0x9F, CHR 0xA7, CHR 0xB9] @ '' Wrangle '' @ [CHR 0xE2, CHR 0x86, CHR 0x92] @ '' '' @ [CHR 0xF0, CHR 0x9F, CHR 0x94, CHR 0xAC] @ '' Analyze '' @ [CHR 0xE2, CHR 0x86, CHR 0x92] @ '' '' @ [CHR 0xF0, CHR 0x9F, CHR 0x93, CHR 0x8A] @ '' Visualize '' @ [CHR 0xE2, CHR 0x86, CHR 0x92] @ '' '' @ [CHR 0xF0, CHR 0x9F, CHR 0xA7, CHR 0xAC] @ '' Reproduce\<newline>'' @
     ''\<newline>'' @
     ''## '' @ [CHR 0xF0, CHR 0x9F, CHR 0x93, CHR 0x9E] @ '' Support\<newline>'' @
     ''\<newline>'' @
     ''- **Issues**: Report bugs or request features on [GitHub Issues]('' @ repo_url @ ''/issues)\<newline>'' @
     ''- **Discussions**: Join the conversation on [GitHub Discussions]('' @ repo_url @ ''/discussions)\<newline>'' @
     ''- **Contributing**: See [CONTRIBUTING.md](rules/CONTRIBUTING.md)\<newline>'' @
     ''\<newline>'' @
     ''---\<newline>'' @
     ''\<newline>'' @
     ''**Ready to start coding with vibe?** Choose your workflow and feel the difference that clarity and intention make in your analysis!\<newline>'' @
     ''\<newline>'' @
     ''*Generated automatically by build_documentation.py*\<newline>''"

text \<open>\<open>self.workflow_categories.get(category, category)\<close>.\<close>

definition category_name :: "string \<Rightarrow> string" where
  "category_name category =
     (case map_of workflow_categories category of Some label \<Rightarrow> label | None \<Rightarrow> category)"

text \<open>
  The loop over the sorted workflow files; \<open>current_category\<close> starts as \<open>None\<close>, and a
  heading is written whenever the category differs from that of the file before.
\<close>

fun index_workflow_lines :: "fs \<Rightarrow> string option \<Rightarrow> string list \<Rightarrow> string" where
  "index_workflow_lines files current_category [] = []"
| "index_workflow_lines files current_category (workflow_file # rest) =
     (let category = determine_category workflow_file in
      (if Some category \<noteq> current_category
       then ''\<newline>#### '' @ category_name category @ ''\<newline>\<newline>'' else [])
      @ ''- ['' @ extract_workflow_title files workflow_file @ ''](workflows/''
      @ path_name workflow_file @ '')\<newline>''
      @ index_workflow_lines files (Some category) rest)"

definition index_file_lines :: "fs \<Rightarrow> string \<Rightarrow> string list \<Rightarrow> string" where
  "index_file_lines files dir fs_list =
     concat (map (\<lambda>f. ''- ['' @ extract_title files f @ '']('' @ dir @ path_name f @ '')\<newline>'')
               (sorted_paths fs_list))"

definition index_content :: "fs \<Rightarrow> file_map \<Rightarrow> string" where
  "index_content files fm =
     index_intro
     @ index_workflow_lines files None (sorted_paths (fm_workflows fm))
     @ index_examples_heading @ index_file_lines files ''examples/'' (fm_examples fm)
     @ index_rules_heading @ index_file_lines files ''rules/'' (fm_rules fm)
     @ index_main_heading @ index_file_lines files [] (fm_main fm)
     @ index_outro"

definition generate_index_readme :: "fs \<Rightarrow> file_map \<Rightarrow> fs" where
  "generate_index_readme files fm = write_text files ''docs/README.md'' (index_content files fm)"

subsection \<open>validate\_internal\_links\<close>

text \<open>
  The pattern \<open>\[([^\]]+)\]\(([^\)]+)\)\<close> at the start of a text: an opening bracket, the
  longest run of characters other than the closing bracket (at least one), the closing
  bracket and an opening parenthesis, the longest run of characters other than the
  closing parenthesis (at least one), and the closing parenthesis. No shorter run can
  match, since the character after a shorter run is not the delimiter. The result is the
  two groups and the text after the match.
\<close>

definition match_link :: "string \<Rightarrow> (string \<times> string \<times> string) option" where
  "match_link s =
     (case s of
        [] \<Rightarrow> None
      | c # r \<Rightarrow>
          if c \<noteq> CHR ''['' then None
          else (let link_text = takeWhile (\<lambda>x. x \<noteq> CHR '']'') r;
                    r1 = dropWhile (\<lambda>x. x \<noteq> CHR '']'') r
                in if link_text = [] then None
                   else (case r1 of
                           a # b # r2 \<Rightarrow>
                             if b \<noteq> CHR ''('' then None
                             else (let link_url = takeWhile (\<lambda>x. x \<noteq> CHR '')'') r2;
                                       r3 = dropWhile (\<lambda>x. x \<noteq> CHR '')'') r2
                                   in if link_url = [] then None
                                      else (case r3 of
                                              [] \<Rightarrow> None
                                            | d # rest \<Rightarrow> Some (link_text, link_url, rest)))
                         | _ \<Rightarrow> None)))"

text \<open>\<open>re.findall\<close>: the matches from left to right, each search starting where the last match ended.\<close>

function findall_links :: "string \<Rightarrow> (string \<times> string) list" where
  "findall_links [] = []"
| "findall_links (c # cs) =
     (case match_link (c # cs) of
        Some (link_text, link_url, rest) \<Rightarrow> (link_text, link_url) # findall_links rest
      | None \<Rightarrow> findall_links cs)"
  by pat_completeness auto
termination
proof (relation "measure length", goal_cases)
  case 1
  show ?case by simp
next
  case (2 c cs)
  show ?case by simp
next
  case (3 c cs x2 link_text y link_url rest)
  have d: "length (dropWhile P xs) \<le> length xs" for P and xs :: string
    by (induction xs) auto
  from 3 have m: "match_link (c # cs) = Some (link_text, link_url, rest)"
    by simp
  then obtain a b r2 d' where
    r1: "dropWhile (\<lambda>x. x \<noteq> CHR '']'') cs = a # b # r2" and
    r3: "dropWhile (\<lambda>x. x \<noteq> CHR '')'') r2 = d' # rest"
    unfolding match_link_def Let_def
    by (auto split: if_splits list.splits)
  have "length (d' # rest) \<le> length r2"
    using d [of "\<lambda>x. x \<noteq> CHR '')''" r2] r3 by simp
  moreover have "length (a # b # r2) \<le> length cs"
    using d [of "\<lambda>x. x \<noteq> CHR '']''" cs] r1 by simp
  ultimately have "length rest < length (c # cs)"
    by simp
  then show ?case by simp
qed

definition broken_link_message :: "string \<Rightarrow> string \<Rightarrow> string \<Rightarrow> string" where
  "broken_link_message name link_text link_url =
     ''Broken link in '' @ name @ '': ['' @ link_text @ '']('' @ link_url @ '')''"

text \<open>The loop over the links of one file.\<close>

fun check_links :: "string \<Rightarrow> string list \<Rightarrow> (string \<times> string) list \<Rightarrow> string list" where
  "check_links name available_files [] = []"
| "check_links name available_files ((link_text, link_url) # rest) =
     (if startswith link_url ''http'' then check_links name available_files rest
      else if link_url \<notin> set available_files
        then broken_link_message name link_text link_url # check_links name available_files rest
      else check_links name available_files rest)"

text \<open>\<open>for file_list in file_map.values()\<close>: the four lists in the order of the dictionary.\<close>

definition all_files :: "file_map \<Rightarrow> string list" where
  "all_files fm = fm_workflows fm @ fm_examples fm @ fm_rules fm @ fm_main fm"

text \<open>The set \<open>available_files\<close>: the name of each file and its path below \<open>docs\<close>.\<close>

fun available_files :: "string list \<Rightarrow> error + string list" where
  "available_files [] = Inr []"
| "available_files (file_path # rest) =
     (case docs_relative file_path of
        None \<Rightarrow> Inl ValueError
      | Some r \<Rightarrow>
          (case available_files rest of
             Inl e \<Rightarrow> Inl e
           | Inr available \<Rightarrow> Inr (path_name file_path # r # available)))"

fun validate_files :: "fs \<Rightarrow> string list \<Rightarrow> string list \<Rightarrow> error + string list" where
  "validate_files files available [] = Inr []"
| "validate_files files available (file_path # rest) =
     (case read_text files file_path of
        None \<Rightarrow> Inl FileNotFoundError
      | Some content \<Rightarrow>
          (case validate_files files available rest of
             Inl e \<Rightarrow> Inl e
           | Inr issues \<Rightarrow>
               Inr (check_links (path_name file_path) available (findall_links content) @ issues)))"

definition validate_internal_links :: "fs \<Rightarrow> file_map \<Rightarrow> error + string list" where
  "validate_internal_links files fm =
     (case available_files (all_files fm) of
        Inl e \<Rightarrow> Inl e
      | Inr available \<Rightarrow> validate_files files available (all_files fm))"

subsection \<open>run\_markdown\_lint\<close>

text \<open>
  What \<open>subprocess.run\<close> does is given from outside: the executable is not found
  (\<open>FileNotFoundError\<close>), or the process ends with a return code and its standard output.
\<close>

datatype process_outcome = ToolNotFound | Completed int string

definition lint_passed_message :: string where
  "lint_passed_message = [CHR 0xE2, CHR 0x9C, CHR 0x85] @ '' All markdown files pass linting''"

definition lint_issues_prefix :: string where
  "lint_issues_prefix = [CHR 0xE2, CHR 0x9D, CHR 0x8C] @ '' Markdown linting issues:\<newline>''"

definition lint_not_found_message :: string where
  "lint_not_found_message =
     [CHR 0xE2, CHR 0x9D, CHR 0x8C]
     @ '' markdownlint not found. Please install with: npm install -g markdownlint-cli''"

fun run_markdown_lint :: "process_outcome \<Rightarrow> bool \<times> string" where
  "run_markdown_lint (Completed returncode stdout) =
     (if returncode = 0 then (True, lint_passed_message)
      else (False, lint_issues_prefix @ stdout))"
| "run_markdown_lint ToolNotFound = (False, lint_not_found_message)"

subsection \<open>build\_documentation\<close>

text \<open>
  The six steps in their order. What the run prints is the list of link issues and the
  lint message, so the result keeps both, with the file map and the files as the run
  leaves them.
\<close>

record build_result =
  br_files :: fs
  br_file_map :: file_map
  br_link_issues :: "string list"
  br_lint :: "bool \<times> string"

fun badges_loop :: "fs \<Rightarrow> string list \<Rightarrow> fs" where
  "badges_loop files [] = files"
| "badges_loop files (workflow_file # rest) =
     badges_loop (add_reproduction_badges files workflow_file) rest"

definition build_documentation :: "fs \<Rightarrow> process_outcome \<Rightarrow> error + build_result" where
  "build_documentation files outcome =
     (case copy_and_organize_files files of
        Inl e \<Rightarrow> Inl e
      | Inr (files1, fm) \<Rightarrow>
          (let files2 = badges_loop files1 (fm_workflows fm) in
           case create_cross_references files2 fm of
             Inl e \<Rightarrow> Inl e
           | Inr files3 \<Rightarrow>
               (let files4 = generate_index_readme files3 fm in
                case validate_internal_links files4 fm of
                  Inl e \<Rightarrow> Inl e
                | Inr link_issues \<Rightarrow>
                    Inr \<lparr>br_files = files4, br_file_map = fm, br_link_issues = link_issues,
                         br_lint = run_markdown_lint outcome\<rparr>)))"

section \<open>Notions used to state the properties\<close>

text \<open>
  The destination of a discovered file, by the tests of \<open>copy_and_organize_files\<close> in
  their order, and the four lists of destinations that a list of discovered files gives.
\<close>

definition copy_destination :: "string \<Rightarrow> string option" where
  "copy_destination p =
     (if contains ''workflows'' p then Some (''docs/workflows/'' @ path_name p)
      else if contains ''examples'' p then Some (''docs/examples/'' @ path_name p)
      else if contains ''rules'' p then Some (''docs/rules/'' @ path_name p)
      else if path_name p \<in> set [''README.md'', ''CODE_OF_CONDUCT.md''] then Some (''docs/'' @ path_name p)
      else None)"

definition routed_workflows :: "string list \<Rightarrow> string list" where
  "routed_workflows ps =
     map (\<lambda>p. ''docs/workflows/'' @ path_name p) (filter (\<lambda>p. contains ''workflows'' p) ps)"

definition routed_examples :: "string list \<Rightarrow> string list" where
  "routed_examples ps =
     map (\<lambda>p. ''docs/examples/'' @ path_name p)
       (filter (\<lambda>p. \<not> contains ''workflows'' p \<and> contains ''examples'' p) ps)"

definition routed_rules :: "string list \<Rightarrow> string list" where
  "routed_rules ps =
     map (\<lambda>p. ''docs/rules/'' @ path_name p)
       (filter (\<lambda>p. \<not> contains ''workflows'' p \<and> \<not> contains ''examples'' p \<and> contains ''rules'' p) ps)"

definition routed_main :: "string list \<Rightarrow> string list" where
  "routed_main ps =
     map (\<lambda>p. ''docs/'' @ path_name p)
       (filter (\<lambda>p. \<not> contains ''workflows'' p \<and> \<not> contains ''examples'' p \<and> \<not> contains ''rules'' p
                    \<and> path_name p \<in> set [''README.md'', ''CODE_OF_CONDUCT.md'']) ps)"

text \<open>
  Modelled on the wording of the specification, for comparison with
  \<open>find_related_workflows\<close>: the category of the file is the first key in its path and,
  when no key occurs, the category of the file-name keywords (\<open>determine_category\<close>); the
  relationship table is then looked up under the category without its numeric prefix.
\<close>

definition spec_find_related_workflows :: "string \<Rightarrow> (string \<times> string) list \<Rightarrow> (string \<times> string) list" where
  "spec_find_related_workflows file_path workflow_links =
     related_for_type (Some (category_type (determine_category file_path))) workflow_links"

text \<open>
  The number of positions of a text at which \<open>sub\<close> occurs: how often a text holds the
  header of the section of related workflows.
\<close>

fun count_sub :: "string \<Rightarrow> string \<Rightarrow> nat" where
  "count_sub sub [] = (if sub = [] then 1 else 0)"
| "count_sub sub (c # cs) = (if prefix sub (c # cs) then 1 else 0) + count_sub sub cs"

subsection \<open>Example inputs\<close>

text \<open>The files, texts and links at which the properties below are instantiated.\<close>

definition late_heading_text :: string where
  "late_heading_text = ''a\<newline>b\<newline>c\<newline>d\<newline>e\<newline>f\<newline>g\<newline>h\<newline>i\<newline>j\<newline># Late heading''"

definition routing_example :: fs where
  "routing_example =
     [(''README.md'', ''# Project''), (''NOTES.md'', ''notes''),
      (''workflows/examples_of_rules.md'', ''w''), (''examples/rules_demo.md'', ''e''),
      (''rules/style.md'', ''r''), (''manuscript/paper.md'', ''m'')]"

definition anova_text :: string where
  "anova_text = ''# One-way ANOVA\<newline>**Goal:** Compare group means  \<newline>Some text.''"

definition two_goals_text :: string where
  "two_goals_text = ''# Y\<newline>**Goal:** First \<newline>**Goal:** Second''"




definition basics_path :: string where
  "basics_path = ''docs/workflows/01_data_wrangling_basics.md''"

definition basics_files :: fs where
  "basics_files = [(basics_path, ''# Basics\<newline>## Summary\<newline>Done.'')]"

definition basics_links :: "(string \<times> string) list" where
  "basics_links = [(''02_visualization_intro'', ''workflows/02_visualization_intro.md'')]"

definition basics_result :: string where
  "basics_result =
     ''# Basics\<newline>''
     @ ''\<newline>## Related Workflows\<newline>\<newline>''
     @ ''- [02 Visualization Intro](workflows/02_visualization_intro.md)\<newline>\<newline>''
     @ ''\<newline>## Summary\<newline>Done.''"

definition header_links :: "(string \<times> string) list" where
  "header_links = [(''## related workflows visualization'', ''workflows/v.md'')]"

definition header_result :: string where
  "header_result =
     ''# Basics\<newline>''
     @ ''\<newline>## Related Workflows\<newline>\<newline>''
     @ ''- [## Related Workflows Visualization](workflows/v.md)\<newline>\<newline>''
     @ ''\<newline>## Summary\<newline>Done.''"

definition intro_tree :: fs where
  "intro_tree = [(''workflows/01_data_wrangling/intro.md'', ''# Intro'')]"

definition intro_copied_files :: fs where
  "intro_copied_files =
     [(''workflows/01_data_wrangling/intro.md'', ''# Intro''),
      (''docs/workflows/intro.md'', ''# Intro'')]"

definition intro_badged_text :: string where
  "intro_badged_text = ''# Intro'' @ [nl] @ badge_section"

definition intro_badged_files :: fs where
  "intro_badged_files =
     [(''workflows/01_data_wrangling/intro.md'', ''# Intro''),
      (''docs/workflows/intro.md'', intro_badged_text)]"

definition intro_readme :: string where
  "intro_readme =
     index_intro
     @ ''\<newline>#### 00_other\<newline>\<newline>''
     @ ''- [Intro](workflows/intro.md)\<newline>''
     @ index_examples_heading @ index_rules_heading @ index_main_heading @ index_outro"

definition intro_result_files :: fs where
  "intro_result_files =
     [(''workflows/01_data_wrangling/intro.md'', ''# Intro''),
      (''docs/workflows/intro.md'', intro_badged_text),
      (''docs/README.md'', intro_readme)]"

definition intro_file_map :: file_map where
  "intro_file_map = \<lparr>fm_workflows = [''docs/workflows/intro.md''], fm_examples = [],
                      fm_rules = [], fm_main = []\<rparr>"

section \<open>Properties\<close>

subsection \<open>Strings and files\<close>

lemma contains_iff: "contains sub s \<longleftrightarrow> (\<exists>a b. s = a @ sub @ b)"
proof (induction s)
  case Nil
  then show ?case by auto
next
  case (Cons c cs)
  show ?case
  proof
    assume "contains sub (c # cs)"
    then consider "prefix sub (c # cs)" | "contains sub cs" by auto
    then show "\<exists>a b. c # cs = a @ sub @ b"
    proof cases
      case 1
      then obtain b where "c # cs = sub @ b" by (auto simp: prefix_def)
      then have "c # cs = [] @ sub @ b" by simp
      then show ?thesis by blast
    next
      case 2
      with Cons.IH obtain a b where "cs = a @ sub @ b" by blast
      then have "c # cs = (c # a) @ sub @ b" by simp
      then show ?thesis by blast
    qed
  next
    assume "\<exists>a b. c # cs = a @ sub @ b"
    then obtain a b where ab: "c # cs = a @ sub @ b" by blast
    show "contains sub (c # cs)"
    proof (cases a)
      case Nil
      with ab have "prefix sub (c # cs)" by (auto simp: prefix_def)
      then show ?thesis by simp
    next
      case (Cons x a')
      with ab have "cs = a' @ sub @ b" by simp
      with Cons.IH have "contains sub cs" by blast
      then show ?thesis by simp
    qed
  qed
qed

lemma contains_appendI: "contains sub s \<Longrightarrow> contains sub (a @ s @ b)"
proof -
  assume "contains sub s"
  then obtain x y where "s = x @ sub @ y" by (auto simp: contains_iff)
  then have "a @ s @ b = (a @ x) @ sub @ (y @ b)" by simp
  then show ?thesis unfolding contains_iff by blast
qed

lemma str_split_not_Nil: "str_split d s \<noteq> []"
  by (induction s) (auto split: list.splits)

lemma str_join_split: "str_join [d] (str_split d s) = s"
proof (induction s)
  case Nil
  then show ?case by simp
next
  case (Cons c cs)
  show ?case
  proof (cases "c = d")
    case True
    obtain l ls where "str_split d cs = l # ls"
      using str_split_not_Nil [of d cs] by (cases "str_split d cs") auto
    with True Cons show ?thesis by simp
  next
    case False
    obtain l ls where s: "str_split d cs = l # ls"
      using str_split_not_Nil [of d cs] by (cases "str_split d cs") auto
    with False Cons show ?thesis by (cases ls) auto
  qed
qed

lemma contains_str_join: "x \<in> set xs \<Longrightarrow> contains sub x \<Longrightarrow> contains sub (str_join sep xs)"
proof (induction sep xs rule: str_join.induct)
  case (1 sep)
  then show ?case by simp
next
  case (2 sep y)
  then show ?case by simp
next
  case (3 sep y z zs)
  show ?case
  proof (cases "x = y")
    case True
    with 3 show ?thesis using contains_appendI [of sub y "[]" "sep @ str_join sep (z # zs)"] by simp
  next
    case False
    with 3 have "contains sub (str_join sep (z # zs))" by simp
    then show ?thesis using contains_appendI [of sub "str_join sep (z # zs)" "y @ sep" "[]"] by simp
  qed
qed

lemma contains_sentinel_section: "contains badge_sentinel badge_section"
  unfolding badge_sentinel_def badge_section_def by simp

lemma insert_badge_cases: "insert_badge i ls = ls \<or> badge_section \<in> set (insert_badge i ls)"
  by (induction ls arbitrary: i) auto

lemma read_write_same: "read_text (write_text files p s) p = Some s"
  by (simp add: read_text_def write_text_def update_conv')

lemma write_text_triv: "read_text files p = Some s \<Longrightarrow> write_text files p s = files"
  by (simp add: read_text_def write_text_def update_triv)

lemma add_reproduction_badges_content:
  assumes "read_text files p = Some c"
  shows "add_reproduction_badges files p = files \<or>
         (\<exists>c'. add_reproduction_badges files p = write_text files p c' \<and> contains badge_sentinel c')"
proof (cases "contains badge_sentinel c")
  case True
  with assms show ?thesis by (simp add: add_reproduction_badges_def)
next
  case False
  let ?ls = "insert_badge 0 (str_split nl c)"
  from insert_badge_cases [of 0 "str_split nl c"] show ?thesis
  proof
    assume "?ls = str_split nl c"
    with assms False have "add_reproduction_badges files p = write_text files p c"
      by (simp add: add_reproduction_badges_def str_join_split)
    with assms show ?thesis by (simp add: write_text_triv)
  next
    assume "badge_section \<in> set ?ls"
    then have "contains badge_sentinel (str_join [nl] ?ls)"
      using contains_sentinel_section by (rule contains_str_join)
    with assms False show ?thesis by (auto simp: add_reproduction_badges_def)
  qed
qed

subsection \<open>Badge injection\<close>

text \<open>
  Claim C2. Applying \<open>add_reproduction_badges\<close> to a file twice leaves the files as one
  application does, so no second badge block is inserted; and whenever an application
  changes the text of the file, the new text holds the badge sentinel.
\<close>

theorem badge_injection_idempotent:
  "add_reproduction_badges (add_reproduction_badges files p) p = add_reproduction_badges files p
   \<and> (\<forall>c c'. read_text files p = Some c
          \<and> read_text (add_reproduction_badges files p) p = Some c' \<and> c' \<noteq> c
        \<longrightarrow> contains badge_sentinel c')"
proof (cases "read_text files p")
  case None
  then show ?thesis by (simp add: add_reproduction_badges_def)
next
  case (Some c)
  from add_reproduction_badges_content [OF Some] show ?thesis
  proof
    assume "add_reproduction_badges files p = files"
    then show ?thesis using Some by simp
  next
    assume "\<exists>c'. add_reproduction_badges files p = write_text files p c' \<and> contains badge_sentinel c'"
    then obtain c' where w: "add_reproduction_badges files p = write_text files p c'"
      and s: "contains badge_sentinel c'" by blast
    have "add_reproduction_badges (write_text files p c') p = write_text files p c'"
      using s by (simp add: add_reproduction_badges_def read_write_same)
    with w s show ?thesis by (simp add: read_write_same)
  qed
qed

theorem badge_injection_idempotent_witness:
  "read_text [(''docs/workflows/intro.md'', ''# Intro'')] ''docs/workflows/intro.md'' = Some ''# Intro''
   \<and> read_text (add_reproduction_badges [(''docs/workflows/intro.md'', ''# Intro'')]
          ''docs/workflows/intro.md'') ''docs/workflows/intro.md''
       = Some (''# Intro'' @ [nl] @ badge_section)
   \<and> contains badge_sentinel (''# Intro'' @ [nl] @ badge_section)
   \<and> add_reproduction_badges
         (add_reproduction_badges [(''docs/workflows/intro.md'', ''# Intro'')]
            ''docs/workflows/intro.md'') ''docs/workflows/intro.md''
       = add_reproduction_badges [(''docs/workflows/intro.md'', ''# Intro'')]
           ''docs/workflows/intro.md''"
proof -
  let ?p = "''docs/workflows/intro.md''"
  let ?fs = "[(?p, ''# Intro'')]"
  have a: "add_reproduction_badges ?fs ?p = [(?p, ''# Intro'' @ [nl] @ badge_section)]"
    by (simp add: add_reproduction_badges_def read_text_def write_text_def badge_sentinel_def
        startswith_def nl_def)
  have ne: "''# Intro'' @ [nl] @ badge_section \<noteq> ''# Intro''"
    by simp
  from badge_injection_idempotent [of ?fs ?p] a ne show ?thesis
    by (simp add: read_text_def)
qed

lemma insert_badge_no_heading:
  "\<forall>l \<in> set (take (10 - i) ls). \<not> startswith l ''#'' \<Longrightarrow> insert_badge i ls = ls"
proof (induction ls arbitrary: i)
  case Nil
  then show ?case by simp
next
  case (Cons l ls)
  show ?case
  proof (cases "i < 10")
    case True
    then have "10 - i = Suc (10 - Suc i)"
      by simp
    then have t: "take (10 - i) (l # ls) = l # take (10 - Suc i) ls"
      by (simp only: take_Suc_Cons)
    with Cons.prems have "\<not> startswith l ''#''" and "\<forall>x \<in> set (take (10 - Suc i) ls). \<not> startswith x ''#''"
      by auto
    with Cons.IH [of "Suc i"] show ?thesis by simp
  next
    case False
    then have "take (10 - Suc i) ls = []" by simp
    with Cons.IH [of "Suc i"] False show ?thesis by simp
  qed
qed

text \<open>
  Claim C8. When the text of a file holds no badge sentinel and none of its first ten lines
  starts with the heading marker, \<open>add_reproduction_badges\<close> leaves the files as they are:
  nothing is inserted, also not after a heading further down.
\<close>

theorem badge_no_heading_noop:
  assumes "read_text files p = Some c"
    and "\<not> contains badge_sentinel c"
    and "\<forall>l \<in> set (take 10 (str_split nl c)). \<not> startswith l ''#''"
  shows "add_reproduction_badges files p = files"
proof -
  have "insert_badge 0 (str_split nl c) = str_split nl c"
    using assms(3) insert_badge_no_heading [of 0 "str_split nl c"] by simp
  with assms(1,2) show ?thesis
    by (simp add: add_reproduction_badges_def str_join_split write_text_triv)
qed

theorem badge_no_heading_noop_witness:
  "read_text [(''docs/workflows/notes.md'', late_heading_text)] ''docs/workflows/notes.md''
     = Some late_heading_text
   \<and> \<not> contains badge_sentinel late_heading_text
   \<and> take 10 (str_split nl late_heading_text)
       = [''a'', ''b'', ''c'', ''d'', ''e'', ''f'', ''g'', ''h'', ''i'', ''j'']
   \<and> str_split nl late_heading_text ! 10 = ''# Late heading''
   \<and> add_reproduction_badges [(''docs/workflows/notes.md'', late_heading_text)]
         ''docs/workflows/notes.md''
       = [(''docs/workflows/notes.md'', late_heading_text)]"
proof -
  let ?p = "''docs/workflows/notes.md''"
  let ?fs = "[(?p, late_heading_text)]"
  have r: "read_text ?fs ?p = Some late_heading_text"
    by (simp add: read_text_def)
  have s: "str_split nl late_heading_text
           = [''a'', ''b'', ''c'', ''d'', ''e'', ''f'', ''g'', ''h'', ''i'', ''j'', ''# Late heading'']"
    by (simp add: late_heading_text_def nl_def)
  have n: "\<not> contains badge_sentinel late_heading_text"
    by (simp add: late_heading_text_def badge_sentinel_def)
  have h: "\<forall>l \<in> set (take 10 (str_split nl late_heading_text)). \<not> startswith l ''#''"
    by (simp add: s startswith_def)
  from badge_no_heading_noop [OF r n h] r n show ?thesis
    by (simp add: s)
qed

subsection \<open>Categories\<close>

lemma first_category_key_skip:
  "\<forall>k \<in> set pre. \<not> contains k p \<Longrightarrow> first_category_key (pre @ rest) p = first_category_key rest p"
  by (induction pre) auto

lemma first_category_key_Some:
  "first_category_key ks p = Some k \<Longrightarrow> k \<in> set ks \<and> contains k p"
  by (induction ks) (auto split: if_splits)

lemma category_keys_eq:
  "category_keys =
     [''00_agentic_prompt_templates'', ''01_data_wrangling'', ''02_visualization'',
      ''03_univariate_models'', ''04_multivariate_analysis'', ''05_diversity_metrics'',
      ''06_mixed_effects_models'', ''07_time_series_analysis'']
     @ [''08_spatial_analysis'', ''09_species_distribution'', ''10_population_simulation'']"
  by (simp add: category_keys_def workflow_categories_def)

lemma first_category_key_exists:
  "k \<in> set ks \<Longrightarrow> contains k p \<Longrightarrow> \<exists>k'. first_category_key ks p = Some k'"
  by (induction ks) auto

lemma first_category_key_append:
  "first_category_key ks p = Some k \<Longrightarrow> first_category_key (ks @ rest) p = Some k"
  by (induction ks) (auto split: if_splits)

lemma first_category_key_earliest:
  "first_category_key ks p = Some k
   \<Longrightarrow> \<exists>earlier later. ks = earlier @ k # later \<and> (\<forall>x \<in> set earlier. \<not> contains x p)"
proof (induction ks)
  case Nil
  then show ?case by simp
next
  case (Cons a ks)
  show ?case
  proof (cases "contains a p")
    case True
    with Cons.prems have "a = k" by simp
    then have "a # ks = [] @ k # ks \<and> (\<forall>x \<in> set []. \<not> contains x p)" by simp
    then show ?thesis by blast
  next
    case False
    with Cons.prems have "first_category_key ks p = Some k" by simp
    from Cons.IH [OF this] obtain earlier later where
      e: "ks = earlier @ k # later" and n: "\<forall>x \<in> set earlier. \<not> contains x p" by blast
    from e n False have "a # ks = (a # earlier) @ k # later \<and> (\<forall>x \<in> set (a # earlier). \<not> contains x p)"
      by simp
    then show ?thesis by blast
  qed
qed

text \<open>
  Claim C5, amended. For a path that holds \<open>08_spatial_analysis\<close>: when none of the eight
  keys before it in the table of categories occurs in the path, \<open>determine_category\<close>
  returns \<open>08_spatial_analysis\<close>, whatever the file name. In any case the result is the
  earliest key of the table that occurs in the path: it is one of the first nine keys, it
  occurs in the path, and no key that stands before it in the table does.
\<close>

theorem spatial_category_unless_earlier_key:
  assumes "contains ''08_spatial_analysis'' p"
  shows "((\<forall>k \<in> set [''00_agentic_prompt_templates'', ''01_data_wrangling'', ''02_visualization'',
                     ''03_univariate_models'', ''04_multivariate_analysis'', ''05_diversity_metrics'',
                     ''06_mixed_effects_models'', ''07_time_series_analysis'']. \<not> contains k p)
           \<longrightarrow> determine_category p = ''08_spatial_analysis'')
         \<and> contains (determine_category p) p
         \<and> determine_category p \<in> set (take 9 category_keys)
         \<and> (\<exists>earlier later. category_keys = earlier @ determine_category p # later
                \<and> (\<forall>k \<in> set earlier. \<not> contains k p))"
proof -
  let ?pre = "[''00_agentic_prompt_templates'', ''01_data_wrangling'', ''02_visualization'',
               ''03_univariate_models'', ''04_multivariate_analysis'', ''05_diversity_metrics'',
               ''06_mixed_effects_models'', ''07_time_series_analysis'']"
  have a: "determine_category p = ''08_spatial_analysis''" if "\<forall>k \<in> set ?pre. \<not> contains k p"
  proof -
    have "first_category_key category_keys p
          = first_category_key [''08_spatial_analysis'', ''09_species_distribution'', ''10_population_simulation''] p"
      unfolding category_keys_eq using that by (rule first_category_key_skip)
    with assms show ?thesis by (simp add: determine_category_def)
  qed
  have t9: "take 9 category_keys = ?pre @ [''08_spatial_analysis'']"
    by (simp add: category_keys_eq)
  have "''08_spatial_analysis'' \<in> set (take 9 category_keys)"
    unfolding t9 by simp
  from first_category_key_exists [OF this assms]
  obtain k where k: "first_category_key (take 9 category_keys) p = Some k" by blast
  have "first_category_key (take 9 category_keys @ drop 9 category_keys) p = Some k"
    using k by (rule first_category_key_append)
  then have f: "first_category_key category_keys p = Some k" by simp
  then have d: "determine_category p = k" by (simp add: determine_category_def)
  from first_category_key_earliest [OF f] d
  have e: "\<exists>earlier later. category_keys = earlier @ determine_category p # later
                \<and> (\<forall>k \<in> set earlier. \<not> contains k p)"
    by simp
  from first_category_key_Some [OF k] d a e show ?thesis by blast
qed

theorem spatial_category_unless_earlier_key_witness:
  "contains ''08_spatial_analysis'' ''docs/workflows/08_spatial_analysis_kriging.md''
   \<and> determine_category ''docs/workflows/08_spatial_analysis_kriging.md'' = ''08_spatial_analysis''
   \<and> contains (determine_category ''docs/workflows/08_spatial_analysis_kriging.md'')
        ''docs/workflows/08_spatial_analysis_kriging.md''
   \<and> contains ''08_spatial_analysis'' ''docs/workflows/02_visualization_08_spatial_analysis.md''
   \<and> determine_category ''docs/workflows/02_visualization_08_spatial_analysis.md'' = ''02_visualization''
   \<and> category_keys
       = [''00_agentic_prompt_templates'', ''01_data_wrangling'']
         @ determine_category ''docs/workflows/02_visualization_08_spatial_analysis.md''
         # [''03_univariate_models'', ''04_multivariate_analysis'', ''05_diversity_metrics'',
            ''06_mixed_effects_models'', ''07_time_series_analysis'', ''08_spatial_analysis'',
            ''09_species_distribution'', ''10_population_simulation'']
   \<and> \<not> contains ''00_agentic_prompt_templates'' ''docs/workflows/02_visualization_08_spatial_analysis.md''
   \<and> \<not> contains ''01_data_wrangling'' ''docs/workflows/02_visualization_08_spatial_analysis.md''"
proof -
  let ?p = "''docs/workflows/08_spatial_analysis_kriging.md''"
  let ?q = "''docs/workflows/02_visualization_08_spatial_analysis.md''"
  have c: "contains ''08_spatial_analysis'' ?p" by simp
  have n: "\<forall>k \<in> set [''00_agentic_prompt_templates'', ''01_data_wrangling'', ''02_visualization'',
                     ''03_univariate_models'', ''04_multivariate_analysis'', ''05_diversity_metrics'',
                     ''06_mixed_effects_models'', ''07_time_series_analysis'']. \<not> contains k ?p"
    by simp
  from spatial_category_unless_earlier_key [OF c] n c
  have one: "determine_category ?p = ''08_spatial_analysis'' \<and> contains (determine_category ?p) ?p"
    by blast
  have cq: "contains ''08_spatial_analysis'' ?q" by simp
  have nq: "\<not> contains ''00_agentic_prompt_templates'' ?q" "\<not> contains ''01_data_wrangling'' ?q"
    by simp_all
  have v: "contains ''02_visualization'' ?q" by simp
  from spatial_category_unless_earlier_key [OF cq]
  obtain earlier later where
    e: "category_keys = earlier @ determine_category ?q # later"
    and ne: "\<forall>k \<in> set earlier. \<not> contains k ?q"
    by blast
  have dq: "determine_category ?q = ''02_visualization''"
    by (simp add: determine_category_def category_keys_def workflow_categories_def)
  have k: "category_keys
       = [''00_agentic_prompt_templates'', ''01_data_wrangling'']
         @ determine_category ?q
         # [''03_univariate_models'', ''04_multivariate_analysis'', ''05_diversity_metrics'',
            ''06_mixed_effects_models'', ''07_time_series_analysis'', ''08_spatial_analysis'',
            ''09_species_distribution'', ''10_population_simulation'']"
    unfolding dq by (simp add: category_keys_def workflow_categories_def)
  from one c cq dq k nq e ne show ?thesis
    by (intro conjI) simp_all
qed

text \<open>
  The claim as stated fails when the file name holds an earlier key: the path below holds
  \<open>08_spatial_analysis\<close> and is put in \<open>01_data_wrangling\<close>.
\<close>

theorem spatial_category_counterexample:
  "contains ''08_spatial_analysis'' ''workflows/08_spatial_analysis/01_data_wrangling_recap.md''
   \<and> determine_category ''workflows/08_spatial_analysis/01_data_wrangling_recap.md''
       = ''01_data_wrangling''
   \<and> ''01_data_wrangling'' \<noteq> ''08_spatial_analysis''"
  by (simp add: determine_category_def category_keys_def workflow_categories_def)

subsection \<open>Copying and routing\<close>

lemma read_write_text:
  "read_text (write_text files p s) q = (if q = p then Some s else read_text files q)"
  by (simp add: read_text_def write_text_def update_conv')

lemmas routed_defs = routed_workflows_def routed_examples_def routed_rules_def routed_main_def

lemma copy_loop_result:
  assumes "\<forall>p \<in> set ps. read_text files p \<noteq> None"
  shows "\<exists>files'. copy_loop (files, fm) ps
           = Inr (files', \<lparr>fm_workflows = fm_workflows fm @ routed_workflows ps,
                           fm_examples = fm_examples fm @ routed_examples ps,
                           fm_rules = fm_rules fm @ routed_rules ps,
                           fm_main = fm_main fm @ routed_main ps\<rparr>)
         \<and> (\<forall>q. read_text files q \<noteq> None \<longrightarrow> read_text files' q \<noteq> None)
         \<and> (\<forall>q. q \<notin> set (routed_workflows ps @ routed_examples ps @ routed_rules ps @ routed_main ps)
                \<longrightarrow> read_text files' q = read_text files q)
         \<and> (\<forall>q \<in> set (routed_workflows ps @ routed_examples ps @ routed_rules ps @ routed_main ps).
                read_text files' q \<noteq> None)"
  using assms
proof (induction ps arbitrary: files fm)
  case Nil
  then show ?case by (simp add: routed_defs)
next
  case (Cons p ps)
  then obtain c where c: "read_text files p = Some c" by auto
  define d where "d = copy_destination p"
  show ?case
  proof (cases d)
    case None
    then have n: "\<not> contains ''workflows'' p" "\<not> contains ''examples'' p" "\<not> contains ''rules'' p"
      "path_name p \<noteq> ''README.md''" "path_name p \<noteq> ''CODE_OF_CONDUCT.md''"
      unfolding d_def copy_destination_def by (auto split: if_splits)
    then have step: "copy_file (files, fm) p = Inr (files, fm)"
      by (simp add: copy_file_def Let_def)
    have r: "routed_workflows (p # ps) = routed_workflows ps" "routed_examples (p # ps) = routed_examples ps"
      "routed_rules (p # ps) = routed_rules ps" "routed_main (p # ps) = routed_main ps"
      using n by (simp_all add: routed_defs)
    from Cons.prems have "\<forall>p \<in> set ps. read_text files p \<noteq> None" by simp
    from Cons.IH [OF this, of fm] show ?thesis
      unfolding r by (simp add: step)
  next
    case (Some dest)
    let ?files1 = "write_text files dest c"
    have pres: "\<forall>p \<in> set ps. read_text ?files1 p \<noteq> None"
      using Cons.prems by (simp add: read_write_text)
    consider (w) "contains ''workflows'' p"
      | (e) "\<not> contains ''workflows'' p" "contains ''examples'' p"
      | (r) "\<not> contains ''workflows'' p" "\<not> contains ''examples'' p" "contains ''rules'' p"
      | (m) "\<not> contains ''workflows'' p" "\<not> contains ''examples'' p" "\<not> contains ''rules'' p"
            "path_name p \<in> set [''README.md'', ''CODE_OF_CONDUCT.md'']"
      using Some unfolding d_def copy_destination_def by (auto split: if_splits)
    then show ?thesis
    proof cases
      case w
      then have dest: "dest = ''docs/workflows/'' @ path_name p"
        using Some unfolding d_def copy_destination_def by simp
      have step: "copy_file (files, fm) p = Inr (?files1, fm\<lparr>fm_workflows := fm_workflows fm @ [dest]\<rparr>)"
        using w c by (simp add: copy_file_def copy2_def dest Let_def)
      have r: "routed_workflows (p # ps) = dest # routed_workflows ps" "routed_examples (p # ps) = routed_examples ps"
        "routed_rules (p # ps) = routed_rules ps" "routed_main (p # ps) = routed_main ps"
        using w by (simp_all add: routed_defs dest)
      from Cons.IH [OF pres, of "fm\<lparr>fm_workflows := fm_workflows fm @ [dest]\<rparr>"]
      obtain files' where
        a: "copy_loop (?files1, fm\<lparr>fm_workflows := fm_workflows fm @ [dest]\<rparr>) ps
            = Inr (files', \<lparr>fm_workflows = (fm_workflows fm @ [dest]) @ routed_workflows ps,
                           fm_examples = fm_examples fm @ routed_examples ps,
                           fm_rules = fm_rules fm @ routed_rules ps,
                           fm_main = fm_main fm @ routed_main ps\<rparr>)"
        and b: "\<forall>q. read_text ?files1 q \<noteq> None \<longrightarrow> read_text files' q \<noteq> None"
        and cc: "\<forall>q. q \<notin> set (routed_workflows ps @ routed_examples ps @ routed_rules ps @ routed_main ps)
                \<longrightarrow> read_text files' q = read_text ?files1 q"
        and dd: "\<forall>q \<in> set (routed_workflows ps @ routed_examples ps @ routed_rules ps @ routed_main ps).
                read_text files' q \<noteq> None"
        by auto
      have "read_text files' dest \<noteq> None" using b by (simp add: read_write_text)
      with a b cc dd show ?thesis
        unfolding r by (auto simp: step read_write_text)
    next
      case e
      then have dest: "dest = ''docs/examples/'' @ path_name p"
        using Some unfolding d_def copy_destination_def by simp
      have step: "copy_file (files, fm) p = Inr (?files1, fm\<lparr>fm_examples := fm_examples fm @ [dest]\<rparr>)"
        using e c by (simp add: copy_file_def copy2_def dest Let_def)
      have r: "routed_workflows (p # ps) = routed_workflows ps" "routed_examples (p # ps) = dest # routed_examples ps"
        "routed_rules (p # ps) = routed_rules ps" "routed_main (p # ps) = routed_main ps"
        using e by (simp_all add: routed_defs dest)
      from Cons.IH [OF pres, of "fm\<lparr>fm_examples := fm_examples fm @ [dest]\<rparr>"]
      obtain files' where
        a: "copy_loop (?files1, fm\<lparr>fm_examples := fm_examples fm @ [dest]\<rparr>) ps
            = Inr (files', \<lparr>fm_workflows = fm_workflows fm @ routed_workflows ps,
                           fm_examples = (fm_examples fm @ [dest]) @ routed_examples ps,
                           fm_rules = fm_rules fm @ routed_rules ps,
                           fm_main = fm_main fm @ routed_main ps\<rparr>)"
        and b: "\<forall>q. read_text ?files1 q \<noteq> None \<longrightarrow> read_text files' q \<noteq> None"
        and cc: "\<forall>q. q \<notin> set (routed_workflows ps @ routed_examples ps @ routed_rules ps @ routed_main ps)
                \<longrightarrow> read_text files' q = read_text ?files1 q"
        and dd: "\<forall>q \<in> set (routed_workflows ps @ routed_examples ps @ routed_rules ps @ routed_main ps).
                read_text files' q \<noteq> None"
        by auto
      have "read_text files' dest \<noteq> None" using b by (simp add: read_write_text)
      with a b cc dd show ?thesis
        unfolding r by (auto simp: step read_write_text)
    next
      case r
      then have dest: "dest = ''docs/rules/'' @ path_name p"
        using Some unfolding d_def copy_destination_def by simp
      have step: "copy_file (files, fm) p = Inr (?files1, fm\<lparr>fm_rules := fm_rules fm @ [dest]\<rparr>)"
        using r c by (simp add: copy_file_def copy2_def dest Let_def)
      have rr: "routed_workflows (p # ps) = routed_workflows ps" "routed_examples (p # ps) = routed_examples ps"
        "routed_rules (p # ps) = dest # routed_rules ps" "routed_main (p # ps) = routed_main ps"
        using r by (simp_all add: routed_defs dest)
      from Cons.IH [OF pres, of "fm\<lparr>fm_rules := fm_rules fm @ [dest]\<rparr>"]
      obtain files' where
        a: "copy_loop (?files1, fm\<lparr>fm_rules := fm_rules fm @ [dest]\<rparr>) ps
            = Inr (files', \<lparr>fm_workflows = fm_workflows fm @ routed_workflows ps,
                           fm_examples = fm_examples fm @ routed_examples ps,
                           fm_rules = (fm_rules fm @ [dest]) @ routed_rules ps,
                           fm_main = fm_main fm @ routed_main ps\<rparr>)"
        and b: "\<forall>q. read_text ?files1 q \<noteq> None \<longrightarrow> read_text files' q \<noteq> None"
        and cc: "\<forall>q. q \<notin> set (routed_workflows ps @ routed_examples ps @ routed_rules ps @ routed_main ps)
                \<longrightarrow> read_text files' q = read_text ?files1 q"
        and dd: "\<forall>q \<in> set (routed_workflows ps @ routed_examples ps @ routed_rules ps @ routed_main ps).
                read_text files' q \<noteq> None"
        by auto
      have "read_text files' dest \<noteq> None" using b by (simp add: read_write_text)
      with a b cc dd show ?thesis
        unfolding rr by (auto simp: step read_write_text)
    next
      case m
      then have dest: "dest = ''docs/'' @ path_name p"
        using Some unfolding d_def copy_destination_def by simp
      have step: "copy_file (files, fm) p = Inr (?files1, fm\<lparr>fm_main := fm_main fm @ [dest]\<rparr>)"
        using m c by (simp add: copy_file_def copy2_def dest Let_def)
      have r: "routed_workflows (p # ps) = routed_workflows ps" "routed_examples (p # ps) = routed_examples ps"
        "routed_rules (p # ps) = routed_rules ps" "routed_main (p # ps) = dest # routed_main ps"
        using m by (simp_all add: routed_defs dest)
      from Cons.IH [OF pres, of "fm\<lparr>fm_main := fm_main fm @ [dest]\<rparr>"]
      obtain files' where
        a: "copy_loop (?files1, fm\<lparr>fm_main := fm_main fm @ [dest]\<rparr>) ps
            = Inr (files', \<lparr>fm_workflows = fm_workflows fm @ routed_workflows ps,
                           fm_examples = fm_examples fm @ routed_examples ps,
                           fm_rules = fm_rules fm @ routed_rules ps,
                           fm_main = (fm_main fm @ [dest]) @ routed_main ps\<rparr>)"
        and b: "\<forall>q. read_text ?files1 q \<noteq> None \<longrightarrow> read_text files' q \<noteq> None"
        and cc: "\<forall>q. q \<notin> set (routed_workflows ps @ routed_examples ps @ routed_rules ps @ routed_main ps)
                \<longrightarrow> read_text files' q = read_text ?files1 q"
        and dd: "\<forall>q \<in> set (routed_workflows ps @ routed_examples ps @ routed_rules ps @ routed_main ps).
                read_text files' q \<noteq> None"
        by auto
      have "read_text files' dest \<noteq> None" using b by (simp add: read_write_text)
      with a b cc dd show ?thesis
        unfolding r by (auto simp: step read_write_text)
    qed
  qed
qed

lemma discovered_exist: "p \<in> set (find_all_markdown_files files) \<Longrightarrow> read_text files p \<noteq> None"
proof -
  assume "p \<in> set (find_all_markdown_files files)"
  then have "p \<in> fst ` set files"
    by (auto simp: find_all_markdown_files_def glob_md_root_def glob_md_under_def)
  then show ?thesis
    by (simp add: read_text_def map_of_eq_None_iff)
qed

lemma copy_and_organize_result:
  "\<exists>files'. copy_and_organize_files files
       = Inr (files', \<lparr>fm_workflows = routed_workflows (find_all_markdown_files files),
                       fm_examples = routed_examples (find_all_markdown_files files),
                       fm_rules = routed_rules (find_all_markdown_files files),
                       fm_main = routed_main (find_all_markdown_files files)\<rparr>)
     \<and> (\<forall>q. read_text files q \<noteq> None \<longrightarrow> read_text files' q \<noteq> None)
     \<and> (\<forall>q. q \<notin> set (routed_workflows (find_all_markdown_files files)
                      @ routed_examples (find_all_markdown_files files)
                      @ routed_rules (find_all_markdown_files files)
                      @ routed_main (find_all_markdown_files files))
            \<longrightarrow> read_text files' q = read_text files q)
     \<and> (\<forall>q \<in> set (routed_workflows (find_all_markdown_files files)
                      @ routed_examples (find_all_markdown_files files)
                      @ routed_rules (find_all_markdown_files files)
                      @ routed_main (find_all_markdown_files files)).
            read_text files' q \<noteq> None)"
proof -
  have "\<forall>p \<in> set (find_all_markdown_files files). read_text files p \<noteq> None"
    using discovered_exist by blast
  from copy_loop_result [OF this, of empty_file_map] show ?thesis
    by (simp add: copy_and_organize_files_def empty_file_map_def)
qed

text \<open>
  Claim C7. \<open>copy_and_organize_files\<close> returns, for every file system, a file map whose
  four lists are the destinations of the discovered files that pass the tests in their
  order: \<open>workflows\<close> in the path; else \<open>examples\<close> in the path; else \<open>rules\<close> in the
  path; else a file name that is \<open>README.md\<close> or \<open>CODE_OF_CONDUCT.md\<close>. Only paths of the
  file map are written. A discovered file that passes no test leaves the files and the
  file map as they are.
\<close>

theorem copy_and_organize_routing:
  "\<exists>files' fm. copy_and_organize_files files = Inr (files', fm)
     \<and> fm_workflows fm
         = map (\<lambda>p. ''docs/workflows/'' @ path_name p)
             (filter (\<lambda>p. contains ''workflows'' p) (find_all_markdown_files files))
     \<and> fm_examples fm
         = map (\<lambda>p. ''docs/examples/'' @ path_name p)
             (filter (\<lambda>p. \<not> contains ''workflows'' p \<and> contains ''examples'' p)
                (find_all_markdown_files files))
     \<and> fm_rules fm
         = map (\<lambda>p. ''docs/rules/'' @ path_name p)
             (filter (\<lambda>p. \<not> contains ''workflows'' p \<and> \<not> contains ''examples'' p
                          \<and> contains ''rules'' p)
                (find_all_markdown_files files))
     \<and> fm_main fm
         = map (\<lambda>p. ''docs/'' @ path_name p)
             (filter (\<lambda>p. \<not> contains ''workflows'' p \<and> \<not> contains ''examples'' p
                          \<and> \<not> contains ''rules'' p
                          \<and> path_name p \<in> set [''README.md'', ''CODE_OF_CONDUCT.md''])
                (find_all_markdown_files files))
     \<and> (\<forall>q. q \<notin> set (all_files fm) \<longrightarrow> read_text files' q = read_text files q)
     \<and> (\<forall>st p. \<not> contains ''workflows'' p \<and> \<not> contains ''examples'' p
                \<and> \<not> contains ''rules'' p
                \<and> path_name p \<notin> set [''README.md'', ''CODE_OF_CONDUCT.md'']
              \<longrightarrow> copy_file st p = Inr st)"
proof -
  have drop: "copy_file st p = Inr st"
    if "\<not> contains ''workflows'' p \<and> \<not> contains ''examples'' p \<and> \<not> contains ''rules'' p
        \<and> path_name p \<notin> set [''README.md'', ''CODE_OF_CONDUCT.md'']" for st p
    using that by (simp add: copy_file_def Let_def)
  from copy_and_organize_result [of files] obtain files' where
    a: "copy_and_organize_files files
       = Inr (files', \<lparr>fm_workflows = routed_workflows (find_all_markdown_files files),
                       fm_examples = routed_examples (find_all_markdown_files files),
                       fm_rules = routed_rules (find_all_markdown_files files),
                       fm_main = routed_main (find_all_markdown_files files)\<rparr>)"
    and b: "\<forall>q. q \<notin> set (routed_workflows (find_all_markdown_files files)
                      @ routed_examples (find_all_markdown_files files)
                      @ routed_rules (find_all_markdown_files files)
                      @ routed_main (find_all_markdown_files files))
            \<longrightarrow> read_text files' q = read_text files q"
    by blast
  show ?thesis
    apply (rule exI [of _ files'])
    apply (rule exI [of _ "\<lparr>fm_workflows = routed_workflows (find_all_markdown_files files),
                       fm_examples = routed_examples (find_all_markdown_files files),
                       fm_rules = routed_rules (find_all_markdown_files files),
                       fm_main = routed_main (find_all_markdown_files files)\<rparr>"])
    using a b drop
    apply (simp add: all_files_def)
    apply (simp add: routed_defs)
    done
qed

lemma routing_example_found:
  "find_all_markdown_files routing_example
   = [''README.md'', ''NOTES.md'', ''workflows/examples_of_rules.md'', ''examples/rules_demo.md'',
      ''rules/style.md'', ''manuscript/paper.md'']"
  by code_simp

lemma routing_example_copy: "copy_and_organize_files routing_example
     = Inr (routing_example
            @ [(''docs/README.md'', ''# Project''), (''docs/workflows/examples_of_rules.md'', ''w''),
               (''docs/examples/rules_demo.md'', ''e''), (''docs/rules/style.md'', ''r'')],
            \<lparr>fm_workflows = [''docs/workflows/examples_of_rules.md''],
               fm_examples = [''docs/examples/rules_demo.md''],
               fm_rules = [''docs/rules/style.md''],
               fm_main = [''docs/README.md'']\<rparr>)"
  by code_simp

theorem copy_and_organize_routing_witness:
  "find_all_markdown_files routing_example
     = [''README.md'', ''NOTES.md'', ''workflows/examples_of_rules.md'', ''examples/rules_demo.md'',
        ''rules/style.md'', ''manuscript/paper.md'']
   \<and> copy_and_organize_files routing_example
     = Inr (routing_example
            @ [(''docs/README.md'', ''# Project''), (''docs/workflows/examples_of_rules.md'', ''w''),
               (''docs/examples/rules_demo.md'', ''e''), (''docs/rules/style.md'', ''r'')],
            \<lparr>fm_workflows = [''docs/workflows/examples_of_rules.md''],
               fm_examples = [''docs/examples/rules_demo.md''],
               fm_rules = [''docs/rules/style.md''],
               fm_main = [''docs/README.md'']\<rparr>)
   \<and> copy_file (routing_example, empty_file_map) ''manuscript/paper.md''
     = Inr (routing_example, empty_file_map)
   \<and> copy_file (routing_example, empty_file_map) ''NOTES.md''
     = Inr (routing_example, empty_file_map)"
proof -
  from copy_and_organize_routing [of routing_example]
  have d: "\<And>st p. \<not> contains ''workflows'' p \<and> \<not> contains ''examples'' p
              \<and> \<not> contains ''rules'' p
              \<and> path_name p \<notin> set [''README.md'', ''CODE_OF_CONDUCT.md'']
            \<Longrightarrow> copy_file st p = Inr st"
    by blast
  have m: "copy_file (routing_example, empty_file_map) ''manuscript/paper.md''
           = Inr (routing_example, empty_file_map)"
    by (rule d) (simp add: path_name_def)
  have n: "copy_file (routing_example, empty_file_map) ''NOTES.md''
           = Inr (routing_example, empty_file_map)"
    by (rule d) (simp add: path_name_def)
  from routing_example_found routing_example_copy m n show ?thesis
    by simp
qed

subsection \<open>The run completes\<close>











subsection \<open>Linting\<close>



subsection \<open>Cross-references: the category of a file\<close>

lemma first_category_key_None:
  "\<forall>k \<in> set ks. \<not> contains k p \<Longrightarrow> first_category_key ks p = None"
  by (induction ks) auto

text \<open>
  Claim C4, amended. When none of the eleven keys occurs in the path of a file,
  \<open>find_related_workflows\<close> finds no category: it does not fall back on the file-name
  keywords of \<open>determine_category\<close>. It returns no related workflow, whatever the links,
  and \<open>add_cross_references_to_file\<close> leaves the file as it is.
\<close>

theorem no_category_key_no_related_workflows:
  assumes "\<forall>k \<in> set category_keys. \<not> contains k p"
  shows "find_current_type p = None
         \<and> (read_text files p \<noteq> None \<longrightarrow> find_related_workflows files p links = Inr [])
         \<and> add_cross_references_to_file files p links = Inr files"
proof -
  from assms have n: "find_current_type p = None"
    by (simp add: find_current_type_def first_category_key_None)
  then have r: "find_related_workflows files p links = Inr []" if "read_text files p \<noteq> None"
    using that by (auto simp: find_related_workflows_def related_for_type_def)
  then have "add_cross_references_to_file files p links = Inr files"
    by (auto simp: add_cross_references_to_file_def split: option.splits)
  with n r show ?thesis by blast
qed

theorem no_category_key_no_related_workflows_witness:
  "filter (\<lambda>k. contains k ''docs/workflows/tidy_data.md'') category_keys = []
   \<and> read_text [(''docs/workflows/tidy_data.md'', ''# Tidy data'')] ''docs/workflows/tidy_data.md''
       = Some ''# Tidy data''
   \<and> find_related_workflows [(''docs/workflows/tidy_data.md'', ''# Tidy data'')]
        ''docs/workflows/tidy_data.md''
        [(''basic_visualization'', ''workflows/basic_visualization.md'')] = Inr []
   \<and> add_cross_references_to_file [(''docs/workflows/tidy_data.md'', ''# Tidy data'')]
        ''docs/workflows/tidy_data.md''
        [(''basic_visualization'', ''workflows/basic_visualization.md'')]
       = Inr [(''docs/workflows/tidy_data.md'', ''# Tidy data'')]"
proof -
  let ?p = "''docs/workflows/tidy_data.md''"
  have f: "filter (\<lambda>k. contains k ?p) category_keys = []"
    by (simp add: category_keys_def workflow_categories_def)
  then have h: "\<forall>k \<in> set category_keys. \<not> contains k ?p"
    by (simp add: filter_empty_conv)
  have r: "read_text [(?p, ''# Tidy data'')] ?p = Some ''# Tidy data''"
    by (simp add: read_text_def)
  from no_category_key_no_related_workflows [OF h, of "[(?p, ''# Tidy data'')]"
      "[(''basic_visualization'', ''workflows/basic_visualization.md'')]"] f r
  show ?thesis by simp
qed

text \<open>
  The claim as stated fails: the file name below holds the keywords \<open>tidy\<close> and \<open>data\<close>,
  so the fallback of the specification gives the link to a visualization workflow, while
  \<open>find_related_workflows\<close> gives none.
\<close>

theorem no_fallback_counterexample:
  "determine_category ''docs/workflows/tidy_data.md'' = ''01_data_wrangling''
   \<and> spec_find_related_workflows ''docs/workflows/tidy_data.md''
        [(''basic_visualization'', ''workflows/basic_visualization.md'')]
       = [(''Basic Visualization'', ''workflows/basic_visualization.md'')]
   \<and> find_related_workflows [(''docs/workflows/tidy_data.md'', ''# Tidy data'')]
        ''docs/workflows/tidy_data.md''
        [(''basic_visualization'', ''workflows/basic_visualization.md'')] = Inr []"
  by code_simp

subsection \<open>Titles\<close>

lemma first_line_match_None:
  "\<forall>l \<in> set ls. line_match pre l = None \<Longrightarrow> first_line_match pre ls = None"
  by (induction ls) auto

lemma first_line_match_append:
  "\<forall>l \<in> set ls. line_match pre l = None
   \<Longrightarrow> first_line_match pre (ls @ rest) = first_line_match pre rest"
  by (induction ls) auto

lemma line_match_exact: "x \<noteq> [] \<Longrightarrow> line_match pre (pre @ x) = Some x"
  by (simp add: line_match_def)

text \<open>
  Claim C6, amended. The three patterns are tried in the order Workflow-prefixed heading,
  Goal line, generic heading. When no line of the file matches the first pattern and the
  first line that matches the Goal pattern is \<open>**Goal:** X\<close>, \<open>extract_workflow_title\<close>
  returns \<open>X\<close> without the whitespace at its ends, whether or not the file has a generic
  heading. When no line matches any of the three patterns, or the file does not exist, the
  title is the stem of the file name with underscores replaced by spaces, in title case.
\<close>

theorem workflow_title_priority:
  "(\<forall>content before x after.
       read_text files p = Some content
       \<and> str_split nl content = before @ [''**Goal:** '' @ x] @ after \<and> x \<noteq> []
       \<and> (\<forall>l \<in> set (str_split nl content). line_match ''# Vibe Workflow: '' l = None)
       \<and> (\<forall>l \<in> set before. line_match ''**Goal:** '' l = None)
     \<longrightarrow> extract_workflow_title files p = str_strip x)
   \<and> (\<forall>content.
       read_text files p = Some content
       \<and> (\<forall>l \<in> set (str_split nl content).
             line_match ''# Vibe Workflow: '' l = None \<and> line_match ''**Goal:** '' l = None
             \<and> line_match ''# '' l = None)
     \<longrightarrow> extract_workflow_title files p
         = str_title (str_replace (CHR ''_'') (CHR '' '') (path_stem p)))
   \<and> (read_text files p = None
     \<longrightarrow> extract_workflow_title files p
         = str_title (str_replace (CHR ''_'') (CHR '' '') (path_stem p)))"
proof (intro conjI allI impI)
  fix content before x after
  assume a: "read_text files p = Some content
       \<and> str_split nl content = before @ [''**Goal:** '' @ x] @ after \<and> x \<noteq> []
       \<and> (\<forall>l \<in> set (str_split nl content). line_match ''# Vibe Workflow: '' l = None)
       \<and> (\<forall>l \<in> set before. line_match ''**Goal:** '' l = None)"
  then have w: "re_search_line ''# Vibe Workflow: '' content = None"
    unfolding re_search_line_def by (intro first_line_match_None) blast
  from a have "first_line_match ''**Goal:** '' (before @ [''**Goal:** '' @ x] @ after)
               = first_line_match ''**Goal:** '' ([''**Goal:** '' @ x] @ after)"
    by (intro first_line_match_append) blast
  also have "\<dots> = Some x"
    using a line_match_exact [of x "''**Goal:** ''"] by simp
  finally have g: "re_search_line ''**Goal:** '' content = Some x"
    using a by (simp add: re_search_line_def)
  from a w g show "extract_workflow_title files p = str_strip x"
    by (simp add: extract_workflow_title_def title_patterns_def)
next
  fix content
  assume a: "read_text files p = Some content
       \<and> (\<forall>l \<in> set (str_split nl content).
             line_match ''# Vibe Workflow: '' l = None \<and> line_match ''**Goal:** '' l = None
             \<and> line_match ''# '' l = None)"
  then have "re_search_line ''# Vibe Workflow: '' content = None"
    and "re_search_line ''**Goal:** '' content = None"
    and "re_search_line ''# '' content = None"
    unfolding re_search_line_def by (auto intro!: first_line_match_None)
  with a show "extract_workflow_title files p
         = str_title (str_replace (CHR ''_'') (CHR '' '') (path_stem p))"
    by (simp add: extract_workflow_title_def title_patterns_def filename_title_def)
next
  assume "read_text files p = None"
  then show "extract_workflow_title files p
         = str_title (str_replace (CHR ''_'') (CHR '' '') (path_stem p))"
    by (simp add: extract_workflow_title_def filename_title_def)
qed

theorem workflow_title_priority_witness:
  "read_text [(''docs/workflows/anova.md'', anova_text)] ''docs/workflows/anova.md'' = Some anova_text
   \<and> str_split nl anova_text
       = [''# One-way ANOVA''] @ [''**Goal:** '' @ ''Compare group means  ''] @ [''Some text.'']
   \<and> extract_workflow_title [(''docs/workflows/anova.md'', anova_text)] ''docs/workflows/anova.md''
       = ''Compare group means''
   \<and> extract_workflow_title [(''docs/workflows/time_series_notes.md'', ''No heading here.'')]
        ''docs/workflows/time_series_notes.md'' = ''Time Series Notes''
   \<and> extract_workflow_title [] ''docs/workflows/time_series_notes.md'' = ''Time Series Notes''"
proof -
  let ?p = "''docs/workflows/anova.md''"
  let ?q = "''docs/workflows/time_series_notes.md''"
  have s: "str_split nl anova_text
           = [''# One-way ANOVA''] @ [''**Goal:** '' @ ''Compare group means  ''] @ [''Some text.'']"
    by (simp add: anova_text_def nl_def)
  have r: "read_text [(?p, anova_text)] ?p = Some anova_text"
    by (simp add: read_text_def)
  have w: "\<forall>l \<in> set (str_split nl anova_text). line_match ''# Vibe Workflow: '' l = None"
    unfolding s by (simp add: line_match_def)
  have b: "\<forall>l \<in> set [''# One-way ANOVA'']. line_match ''**Goal:** '' l = None"
    by (simp add: line_match_def)
  have st: "str_strip ''Compare group means  '' = ''Compare group means''"
    by code_simp
  from workflow_title_priority [of "[(?p, anova_text)]" ?p]
  have "read_text [(?p, anova_text)] ?p = Some anova_text
       \<and> str_split nl anova_text
           = [''# One-way ANOVA''] @ [''**Goal:** '' @ ''Compare group means  ''] @ [''Some text.'']
       \<and> ''Compare group means  '' \<noteq> []
       \<and> (\<forall>l \<in> set (str_split nl anova_text). line_match ''# Vibe Workflow: '' l = None)
       \<and> (\<forall>l \<in> set [''# One-way ANOVA'']. line_match ''**Goal:** '' l = None)
     \<longrightarrow> extract_workflow_title [(?p, anova_text)] ?p = str_strip ''Compare group means  ''"
    by blast
  with r s w b have "extract_workflow_title [(?p, anova_text)] ?p = str_strip ''Compare group means  ''"
    by blast
  then have one: "extract_workflow_title [(?p, anova_text)] ?p = ''Compare group means''"
    by (simp only: st)
  have t: "str_title (str_replace (CHR ''_'') (CHR '' '') (path_stem ?q)) = ''Time Series Notes''"
    by code_simp
  have r2: "read_text [(?q, ''No heading here.'')] ?q = Some ''No heading here.''"
    by (simp add: read_text_def)
  have n: "\<forall>l \<in> set (str_split nl ''No heading here.'').
             line_match ''# Vibe Workflow: '' l = None \<and> line_match ''**Goal:** '' l = None
             \<and> line_match ''# '' l = None"
    by (simp add: nl_def line_match_def)
  from workflow_title_priority [of "[(?q, ''No heading here.'')]" ?q]
  have "read_text [(?q, ''No heading here.'')] ?q = Some ''No heading here.''
       \<and> (\<forall>l \<in> set (str_split nl ''No heading here.'').
             line_match ''# Vibe Workflow: '' l = None \<and> line_match ''**Goal:** '' l = None
             \<and> line_match ''# '' l = None)
     \<longrightarrow> extract_workflow_title [(?q, ''No heading here.'')] ?q
         = str_title (str_replace (CHR ''_'') (CHR '' '') (path_stem ?q))"
    by blast
  with r2 n have "extract_workflow_title [(?q, ''No heading here.'')] ?q
         = str_title (str_replace (CHR ''_'') (CHR '' '') (path_stem ?q))"
    by blast
  then have two: "extract_workflow_title [(?q, ''No heading here.'')] ?q = ''Time Series Notes''"
    by (simp only: t)
  have r3: "read_text [] ?q = None"
    by (simp add: read_text_def)
  from workflow_title_priority [of "[]" ?q] r3
  have "extract_workflow_title [] ?q = str_title (str_replace (CHR ''_'') (CHR '' '') (path_stem ?q))"
    by blast
  then have three: "extract_workflow_title [] ?q = ''Time Series Notes''"
    by (simp only: t)
  from r s one two three show ?thesis by blast
qed

text \<open>
  The claim as stated fails on the text below, whose lines are a generic heading and two
  Goal lines, \<open>X\<close> being \<open>First\<close> with a space after it in one and \<open>Second\<close> in the other:
  the title is \<open>First\<close>, the text of the first Goal line without the space at its end.
\<close>

theorem workflow_title_counterexample:
  "str_split nl two_goals_text = [''# Y'', ''**Goal:** '' @ ''First '', ''**Goal:** '' @ ''Second'']
   \<and> extract_workflow_title [(''docs/workflows/a.md'', two_goals_text)] ''docs/workflows/a.md''
       = ''First''
   \<and> ''First'' \<noteq> ''First '' \<and> ''First'' \<noteq> ''Second''"
  by code_simp

text \<open>
  The title of a Goal line that ends with a no-break space, and the title that the file
  name gives when it holds letters outside ASCII.
\<close>

lemma workflow_title_unicode:
  "extract_workflow_title
     [(''docs/workflows/a.md'', ''**Goal:** Compare means'' @ [CHR 0xC2, CHR 0xA0])]
     ''docs/workflows/a.md'' = ''Compare means''"
  "extract_workflow_title []
     (''docs/workflows/'' @ [CHR 0xC3, CHR 0xA9] @ ''cologie_donn'' @ [CHR 0xC3, CHR 0xA9] @ ''es.md'')
   = [CHR 0xC3, CHR 0x89] @ ''cologie Donn'' @ [CHR 0xC3, CHR 0xA9] @ ''es''"
  by code_simp+

subsection \<open>Link validation\<close>












subsection \<open>Cross-reference injection\<close>

lemma count_sub_zero: "count_sub sub s = 0 \<longleftrightarrow> \<not> contains sub s"
  by (induction s) auto

lemma prefix_before_char:
  assumes "d \<notin> set sub"
  shows "prefix sub (x @ d # y) \<longleftrightarrow> prefix sub x"
proof
  assume "prefix sub (x @ d # y)"
  then consider "prefix sub x" | us where "sub = x @ us" "prefix us (d # y)"
    unfolding prefix_append by blast
  then show "prefix sub x"
  proof cases
    case 1
    then show ?thesis .
  next
    case 2
    show ?thesis
    proof (cases us)
      case Nil
      with 2 show ?thesis by simp
    next
      case (Cons u us')
      with 2 have "u = d" by simp
      with Cons 2 assms show ?thesis by simp
    qed
  qed
next
  assume "prefix sub x"
  then show "prefix sub (x @ d # y)" by (simp add: prefix_prefix)
qed

lemma count_sub_split:
  assumes "d \<notin> set sub" "sub \<noteq> []"
  shows "count_sub sub (a @ d # b) = count_sub sub a + count_sub sub b"
proof (induction a)
  case Nil
  have "\<not> prefix sub (d # b)"
    using prefix_before_char [OF assms(1), of "[]" b] assms(2) by simp
  with assms(2) show ?case by simp
next
  case (Cons c a)
  have "prefix sub ((c # a) @ d # b) \<longleftrightarrow> prefix sub (c # a)"
    using assms(1) by (rule prefix_before_char)
  with Cons show ?case by simp
qed

lemma count_sub_join:
  assumes "d \<notin> set sub" "sub \<noteq> []"
  shows "xs \<noteq> [] \<Longrightarrow> count_sub sub (str_join [d] xs) = sum_list (map (count_sub sub) xs)"
proof (induction "[d]" xs rule: str_join.induct)
  case 1
  then show ?case by simp
next
  case (2 x)
  then show ?case by simp
next
  case (3 x y ys)
  have "count_sub sub (x @ d # str_join [d] (y # ys))
        = count_sub sub x + count_sub sub (str_join [d] (y # ys))"
    using assms by (rule count_sub_split)
  with 3 show ?case by simp
qed

lemma header_plain: "nl \<notin> set xref_header" "xref_header \<noteq> []" "count_sub xref_header xref_header = 1"
  by (simp_all add: xref_header_def nl_def)

lemma cross_ref_section_eq:
  "cross_ref_section related = nl # (xref_header @ nl # (nl # (link_lines related @ nl # [])))"
  by (simp add: cross_ref_section_def xref_header_def nl_def)

lemma count_sub_section:
  "count_sub xref_header (nl # (xref_header @ nl # (nl # (link_lines related @ nl # []))))
   = 1 + count_sub xref_header (link_lines related)"
proof -
  note sp = count_sub_split [OF header_plain(1,2)]
  have e: "count_sub xref_header [] = 0"
    using header_plain(2) by simp
  have "count_sub xref_header ([] @ nl # (xref_header @ nl # (nl # (link_lines related @ nl # []))))
        = count_sub xref_header [] + count_sub xref_header (xref_header @ nl # (nl # (link_lines related @ nl # [])))"
    by (rule sp)
  also have "count_sub xref_header (xref_header @ nl # (nl # (link_lines related @ nl # [])))
        = count_sub xref_header xref_header + count_sub xref_header ([] @ nl # (link_lines related @ nl # []))"
    using sp [of xref_header "nl # (link_lines related @ nl # [])"] by simp
  also have "count_sub xref_header ([] @ nl # (link_lines related @ nl # []))
        = count_sub xref_header [] + count_sub xref_header (link_lines related @ nl # [])"
    by (rule sp)
  also have "count_sub xref_header (link_lines related @ nl # [])
        = count_sub xref_header (link_lines related) + count_sub xref_header []"
    by (rule sp)
  finally show ?thesis
    using e header_plain(3) by simp
qed

lemma contains_header_section: "contains xref_header (cross_ref_section related)"
proof -
  have "count_sub xref_header (cross_ref_section related) \<noteq> 0"
    unfolding cross_ref_section_eq count_sub_section by simp
  then show ?thesis by (simp add: count_sub_zero)
qed

lemma count_sub_lines_zero:
  assumes "\<not> contains xref_header c" "l \<in> set (str_split nl c)"
  shows "count_sub xref_header l = 0"
proof -
  have "count_sub xref_header (str_join [nl] (str_split nl c))
        = sum_list (map (count_sub xref_header) (str_split nl c))"
    using header_plain(1,2) str_split_not_Nil by (rule count_sub_join)
  then have "sum_list (map (count_sub xref_header) (str_split nl c)) = count_sub xref_header c"
    by (simp only: str_join_split)
  also have "\<dots> = 0"
    using assms(1) by (simp add: count_sub_zero)
  finally have "sum_list (map (count_sub xref_header) (str_split nl c)) = 0" .
  with assms(2) show ?thesis
    by auto
qed

text \<open>What one application writes, when it writes.\<close>

lemma add_cross_references_cases:
  "add_cross_references_to_file files p links = Inr files
   \<or> (\<exists>c related c1. read_text files p = Some c \<and> \<not> contains xref_header c
        \<and> find_related_workflows files p links = Inr related \<and> related \<noteq> []
        \<and> add_cross_references_to_file files p links = Inr (write_text files p c1)
        \<and> ((\<exists>i. c1 = str_join [nl] (take i (str_split nl c) @ [cross_ref_section related]
                                       @ drop i (str_split nl c)))
           \<or> c1 = c @ cross_ref_section related))"
  by (auto simp: add_cross_references_to_file_def find_related_workflows_def Let_def
      split: option.splits)

lemma inserted_text_count:
  assumes "\<not> contains xref_header c"
    and "(\<exists>i. c1 = str_join [nl] (take i (str_split nl c) @ [cross_ref_section related]
                                       @ drop i (str_split nl c)))
           \<or> c1 = c @ cross_ref_section related"
  shows "count_sub xref_header c1 = 1 + count_sub xref_header (link_lines related)"
  using assms(2)
proof
  assume "\<exists>i. c1 = str_join [nl] (take i (str_split nl c) @ [cross_ref_section related]
                                       @ drop i (str_split nl c))"
  then obtain i where c1: "c1 = str_join [nl] (take i (str_split nl c) @ [cross_ref_section related]
                                       @ drop i (str_split nl c))" by blast
  have z: "\<forall>l \<in> set (str_split nl c). count_sub xref_header l = 0"
    using count_sub_lines_zero [OF assms(1)] by blast
  have zt: "sum_list (map (count_sub xref_header) (take i (str_split nl c))) = 0"
    using z by (auto dest: in_set_takeD)
  have zd: "sum_list (map (count_sub xref_header) (drop i (str_split nl c))) = 0"
    using z by (auto dest: in_set_dropD)
  have "count_sub xref_header c1
        = sum_list (map (count_sub xref_header)
            (take i (str_split nl c) @ [cross_ref_section related] @ drop i (str_split nl c)))"
    unfolding c1 using header_plain(1,2) by (rule count_sub_join) simp
  also have "\<dots> = count_sub xref_header (cross_ref_section related)"
    using zt zd by simp
  finally show ?thesis
    unfolding cross_ref_section_eq count_sub_section .
next
  assume c1: "c1 = c @ cross_ref_section related"
  have "count_sub xref_header (c @ nl # (xref_header @ nl # (nl # (link_lines related @ nl # []))))
        = count_sub xref_header c
          + count_sub xref_header (xref_header @ nl # (nl # (link_lines related @ nl # [])))"
    using header_plain(1,2) by (rule count_sub_split)
  moreover have "count_sub xref_header (nl # (xref_header @ nl # (nl # (link_lines related @ nl # []))))
        = count_sub xref_header (xref_header @ nl # (nl # (link_lines related @ nl # [])))"
    using count_sub_split [OF header_plain(1,2), of "[]"] header_plain(2) by simp
  moreover have "count_sub xref_header c = 0"
    using assms(1) by (simp add: count_sub_zero)
  ultimately show ?thesis
    unfolding c1 cross_ref_section_eq using count_sub_section [of related] by simp
qed

lemma add_cross_references_twice:
  "\<exists>files1. add_cross_references_to_file files p links = Inr files1
     \<and> add_cross_references_to_file files1 p links = Inr files1"
  using add_cross_references_cases [of files p links]
proof
  assume a: "add_cross_references_to_file files p links = Inr files"
  then show ?thesis by simp
next
  assume "\<exists>c related c1. read_text files p = Some c \<and> \<not> contains xref_header c
        \<and> find_related_workflows files p links = Inr related \<and> related \<noteq> []
        \<and> add_cross_references_to_file files p links = Inr (write_text files p c1)
        \<and> ((\<exists>i. c1 = str_join [nl] (take i (str_split nl c) @ [cross_ref_section related]
                                       @ drop i (str_split nl c)))
           \<or> c1 = c @ cross_ref_section related)"
  then obtain c related c1 where n: "\<not> contains xref_header c"
    and w: "add_cross_references_to_file files p links = Inr (write_text files p c1)"
    and c1: "(\<exists>i. c1 = str_join [nl] (take i (str_split nl c) @ [cross_ref_section related]
                                       @ drop i (str_split nl c)))
           \<or> c1 = c @ cross_ref_section related"
    by blast
  have "count_sub xref_header c1 \<noteq> 0"
    using inserted_text_count [OF n c1] by simp
  then have "contains xref_header c1"
    by (simp add: count_sub_zero)
  then have "add_cross_references_to_file (write_text files p c1) p links = Inr (write_text files p c1)"
    by (simp add: add_cross_references_to_file_def read_write_text)
  with w show ?thesis by simp
qed

text \<open>
  Claim C3, amended. Applying \<open>add_cross_references_to_file\<close> twice leaves the files as one
  application does, for every file and every map of links. Whenever the first application
  changes the files, the new text of the file holds \<open>## Related Workflows\<close> exactly once,
  provided that the bullet lines written for the related workflows do not hold that text
  themselves.
\<close>

theorem cross_reference_idempotent:
  "\<exists>files1. add_cross_references_to_file files p links = Inr files1
     \<and> add_cross_references_to_file files1 p links = Inr files1
     \<and> (files1 \<noteq> files
          \<and> (\<forall>related. find_related_workflows files p links = Inr related
                 \<longrightarrow> \<not> contains xref_header (link_lines related))
        \<longrightarrow> (\<exists>c1. read_text files1 p = Some c1 \<and> count_sub xref_header c1 = 1))"
proof -
  from add_cross_references_twice [of files p links] obtain files1 where
    a: "add_cross_references_to_file files p links = Inr files1"
    and b: "add_cross_references_to_file files1 p links = Inr files1" by blast
  have "\<exists>c1. read_text files1 p = Some c1 \<and> count_sub xref_header c1 = 1"
    if ne: "files1 \<noteq> files"
      and nl: "\<forall>related. find_related_workflows files p links = Inr related
                 \<longrightarrow> \<not> contains xref_header (link_lines related)"
  proof -
    from add_cross_references_cases [of files p links] a ne
    obtain c related c1 where n: "\<not> contains xref_header c"
      and r: "find_related_workflows files p links = Inr related"
      and w: "add_cross_references_to_file files p links = Inr (write_text files p c1)"
      and c1: "(\<exists>i. c1 = str_join [nl] (take i (str_split nl c) @ [cross_ref_section related]
                                       @ drop i (str_split nl c)))
           \<or> c1 = c @ cross_ref_section related"
      by auto
    from nl r have "count_sub xref_header (link_lines related) = 0"
      by (simp add: count_sub_zero)
    with inserted_text_count [OF n c1] have "count_sub xref_header c1 = 1"
      by simp
    moreover from a w have "files1 = write_text files p c1"
      by simp
    ultimately show ?thesis
      by (simp add: read_write_text)
  qed
  with a b show ?thesis by blast
qed

lemma basics_first: "add_cross_references_to_file basics_files basics_path basics_links
                     = Inr [(basics_path, basics_result)]"
  by code_simp

lemma basics_related: "find_related_workflows basics_files basics_path basics_links
                       = Inr [(''02 Visualization Intro'', ''workflows/02_visualization_intro.md'')]"
  by code_simp

lemma basics_no_header:
  "\<not> contains xref_header (link_lines [(''02 Visualization Intro'', ''workflows/02_visualization_intro.md'')])"
  by code_simp

lemma basics_changed: "[(basics_path, basics_result)] \<noteq> basics_files"
  by code_simp

theorem cross_reference_idempotent_witness:
  "add_cross_references_to_file basics_files basics_path basics_links
     = Inr [(basics_path, basics_result)]
   \<and> add_cross_references_to_file [(basics_path, basics_result)] basics_path basics_links
     = Inr [(basics_path, basics_result)]
   \<and> [(basics_path, basics_result)] \<noteq> basics_files
   \<and> find_related_workflows basics_files basics_path basics_links
     = Inr [(''02 Visualization Intro'', ''workflows/02_visualization_intro.md'')]
   \<and> \<not> contains xref_header
         (link_lines [(''02 Visualization Intro'', ''workflows/02_visualization_intro.md'')])
   \<and> count_sub xref_header basics_result = 1"
proof -
  from cross_reference_idempotent [of basics_files basics_path basics_links]
  obtain files1 where
    a: "add_cross_references_to_file basics_files basics_path basics_links = Inr files1"
    and b: "add_cross_references_to_file files1 basics_path basics_links = Inr files1"
    and c: "files1 \<noteq> basics_files
          \<and> (\<forall>related. find_related_workflows basics_files basics_path basics_links = Inr related
                 \<longrightarrow> \<not> contains xref_header (link_lines related))
        \<longrightarrow> (\<exists>c1. read_text files1 basics_path = Some c1 \<and> count_sub xref_header c1 = 1)"
    by blast
  from a have f: "files1 = [(basics_path, basics_result)]"
    by (simp add: basics_first)
  have h: "\<forall>related. find_related_workflows basics_files basics_path basics_links = Inr related
                 \<longrightarrow> \<not> contains xref_header (link_lines related)"
    using basics_no_header by (simp add: basics_related)
  from c have "[(basics_path, basics_result)] \<noteq> basics_files
          \<and> (\<forall>related. find_related_workflows basics_files basics_path basics_links = Inr related
                 \<longrightarrow> \<not> contains xref_header (link_lines related))
        \<longrightarrow> (\<exists>c1. read_text [(basics_path, basics_result)] basics_path = Some c1
               \<and> count_sub xref_header c1 = 1)"
    unfolding f .
  with h basics_changed
  have "\<exists>c1. read_text [(basics_path, basics_result)] basics_path = Some c1
          \<and> count_sub xref_header c1 = 1"
    by (iprover intro: conjI elim: mp)
  then have "count_sub xref_header basics_result = 1"
    by (simp add: read_text_def)
  moreover from b have "add_cross_references_to_file [(basics_path, basics_result)] basics_path basics_links
     = Inr [(basics_path, basics_result)]"
    unfolding f .
  ultimately show ?thesis
    using basics_first basics_changed basics_related basics_no_header by (intro conjI)
qed

text \<open>
  The claim as stated fails when a workflow is named after the header: the first
  application inserts the section, and the text then holds \<open>## Related Workflows\<close> twice,
  once in the header line and once in the bullet line of that workflow.
\<close>

theorem cross_reference_header_twice_counterexample:
  "add_cross_references_to_file basics_files basics_path header_links
     = Inr [(basics_path, header_result)]
   \<and> [(basics_path, header_result)] \<noteq> basics_files
   \<and> count_sub xref_header header_result = 2"
  by code_simp

subsection \<open>The whole run on a tree with one workflow\<close>

lemma intro_copy: "copy_and_organize_files intro_tree = Inr (intro_copied_files, intro_file_map)"
  by code_simp

lemma intro_badges:
  "badges_loop intro_copied_files (fm_workflows intro_file_map) = intro_badged_files"
  by code_simp

lemma intro_cross_references:
  "create_cross_references intro_badged_files intro_file_map = Inr intro_badged_files"
  by code_simp

lemma intro_workflow_lines:
  "index_workflow_lines intro_badged_files None (sorted_paths (fm_workflows intro_file_map))
   = ''\<newline>#### 00_other\<newline>\<newline>'' @ ''- [Intro](workflows/intro.md)\<newline>''"
  by code_simp

lemma intro_other_lines:
  "index_file_lines intro_badged_files ''examples/'' (fm_examples intro_file_map) = []"
  "index_file_lines intro_badged_files ''rules/'' (fm_rules intro_file_map) = []"
  "index_file_lines intro_badged_files [] (fm_main intro_file_map) = []"
  by (simp_all add: index_file_lines_def intro_file_map_def sorted_paths_def)

lemma intro_index: "generate_index_readme intro_badged_files intro_file_map = intro_result_files"
  unfolding generate_index_readme_def index_content_def intro_workflow_lines intro_other_lines
  by (simp add: write_text_def intro_badged_files_def intro_result_files_def intro_readme_def)

lemma intro_read_workflow:
  "read_text intro_result_files ''docs/workflows/intro.md'' = Some intro_badged_text"
  by (simp add: read_text_def intro_result_files_def)

lemma intro_read_readme: "read_text intro_result_files ''docs/README.md'' = Some intro_readme"
  by (simp add: read_text_def intro_result_files_def)

lemma intro_no_broken_link:
  "check_links ''intro.md'' [''intro.md'', ''workflows/intro.md'']
     (findall_links intro_badged_text) = []"
  by code_simp

lemma intro_links: "validate_internal_links intro_result_files intro_file_map = Inr []"
proof -
  have a: "all_files intro_file_map = [''docs/workflows/intro.md'']"
    by (simp add: all_files_def intro_file_map_def)
  have n: "path_name ''docs/workflows/intro.md'' = ''intro.md''"
    by (simp add: path_name_def)
  have d: "docs_relative ''docs/workflows/intro.md'' = Some ''workflows/intro.md''"
    by (simp add: docs_relative_def)
  show ?thesis
    unfolding validate_internal_links_def a
    by (simp add: d n intro_read_workflow intro_no_broken_link)
qed

lemma intro_category: "determine_category ''docs/workflows/intro.md'' = ''00_other''"
  by code_simp

lemma intro_run:
  "build_documentation intro_tree outcome
   = Inr \<lparr>br_files = intro_result_files, br_file_map = intro_file_map, br_link_issues = [],
          br_lint = run_markdown_lint outcome\<rparr>"
  unfolding build_documentation_def
  by (simp add: intro_copy intro_badges intro_cross_references intro_index intro_links)

lemma contains_before_nl:
  assumes "nl \<notin> set sub" "sub \<noteq> []" "b \<noteq> []" "hd b = nl"
  shows "contains sub (a @ b) \<longleftrightarrow> contains sub a \<or> contains sub b"
proof -
  obtain b' where b: "b = nl # b'"
    using assms(3,4) by (cases b) auto
  have 1: "count_sub sub (a @ nl # b') = count_sub sub a + count_sub sub b'"
    using assms(1,2) by (rule count_sub_split)
  have 2: "count_sub sub ([] @ nl # b') = count_sub sub [] + count_sub sub b'"
    using assms(1,2) by (rule count_sub_split)
  have 3: "count_sub sub [] = 0"
    using assms(2) by simp
  from 1 2 3 have "count_sub sub (a @ nl # b') = 0
                   \<longleftrightarrow> count_sub sub a = 0 \<and> count_sub sub (nl # b') = 0"
    by simp
  then show ?thesis
    unfolding count_sub_zero b by blast
qed

lemma no_label_intro: "\<not> contains ''Data Wrangling'' index_intro"
  by (simp add: index_intro_def repo_url_def)

lemma no_label_outro: "\<not> contains ''Data Wrangling'' index_outro"
  by (simp add: index_outro_def repo_url_def)

lemma no_label_headings:
  "\<not> contains ''Data Wrangling'' (''\<newline>#### 00_other\<newline>\<newline>'' @ ''- [Intro](workflows/intro.md)\<newline>'')"
  "\<not> contains ''Data Wrangling'' index_examples_heading"
  "\<not> contains ''Data Wrangling'' index_rules_heading"
  "\<not> contains ''Data Wrangling'' index_main_heading"
  by (simp_all add: index_examples_heading_def index_rules_heading_def index_main_heading_def)

lemma pieces_start:
  "index_examples_heading \<noteq> [] \<and> hd index_examples_heading = nl"
  "index_rules_heading \<noteq> [] \<and> hd index_rules_heading = nl"
  "index_main_heading \<noteq> [] \<and> hd index_main_heading = nl"
  "index_outro \<noteq> [] \<and> hd index_outro = nl"
  by (simp_all add: index_examples_heading_def index_rules_heading_def index_main_heading_def
      index_outro_def nl_def)

lemma no_label_readme: "\<not> contains ''Data Wrangling'' intro_readme"
proof -
  note sp = contains_before_nl [of "''Data Wrangling''"]
  have s: "nl \<notin> set ''Data Wrangling''" "''Data Wrangling'' \<noteq> []"
    by (simp_all add: nl_def)
  have w: "''\<newline>#### 00_other\<newline>\<newline>'' @ ''- [Intro](workflows/intro.md)\<newline>''
           = nl # (''#### 00_other\<newline>\<newline>'' @ ''- [Intro](workflows/intro.md)\<newline>'')"
    by (simp add: nl_def)
  have m: "\<not> contains ''Data Wrangling'' (index_main_heading @ index_outro)"
    using sp [OF s, of index_outro index_main_heading] pieces_start(4) no_label_headings(4)
      no_label_outro by blast
  have "\<not> contains ''Data Wrangling'' (index_rules_heading @ (index_main_heading @ index_outro))"
    using sp [OF s, of "index_main_heading @ index_outro" index_rules_heading] pieces_start(3)
      no_label_headings(3) m by simp
  then have e: "\<not> contains ''Data Wrangling''
                  (index_examples_heading @ (index_rules_heading @ (index_main_heading @ index_outro)))"
    using sp [OF s, of "index_rules_heading @ (index_main_heading @ index_outro)" index_examples_heading]
      pieces_start(2) no_label_headings(2) by simp
  have "\<not> contains ''Data Wrangling''
           ((''\<newline>#### 00_other\<newline>\<newline>'' @ ''- [Intro](workflows/intro.md)\<newline>'')
            @ (index_examples_heading @ (index_rules_heading @ (index_main_heading @ index_outro))))"
    using sp [OF s, of "index_examples_heading @ (index_rules_heading @ (index_main_heading @ index_outro))"
        "''\<newline>#### 00_other\<newline>\<newline>'' @ ''- [Intro](workflows/intro.md)\<newline>''"]
      pieces_start(1) no_label_headings(1) e by simp
  then have "\<not> contains ''Data Wrangling''
           (index_intro @ ((''\<newline>#### 00_other\<newline>\<newline>'' @ ''- [Intro](workflows/intro.md)\<newline>'')
            @ (index_examples_heading @ (index_rules_heading @ (index_main_heading @ index_outro)))))"
    using sp [OF s, of "(''\<newline>#### 00_other\<newline>\<newline>'' @ ''- [Intro](workflows/intro.md)\<newline>'')
            @ (index_examples_heading @ (index_rules_heading @ (index_main_heading @ index_outro)))" index_intro]
      no_label_intro by (simp add: nl_def)
  then show ?thesis
    by (simp add: intro_readme_def)
qed

text \<open>
  Claim C1, amended. For the tree whose one markdown file is
  \<open>workflows/01_data_wrangling/intro.md\<close> with the text \<open># Intro\<close>, the run completes,
  whatever the lint tool does; \<open>docs/workflows/intro.md\<close> then holds the heading followed
  by the badge block, and \<open>docs/README.md\<close> holds the link line
  \<open>- [Intro](workflows/intro.md)\<close> directly under the category heading \<open>#### 00_other\<close>.
  The category is that of the destination path \<open>docs/workflows/intro.md\<close>, which no longer
  names the directory \<open>01_data_wrangling\<close>, and the file name holds no keyword.
\<close>

theorem end_to_end_intro:
  "build_documentation intro_tree outcome
     = Inr \<lparr>br_files = intro_result_files, br_file_map = intro_file_map, br_link_issues = [],
            br_lint = run_markdown_lint outcome\<rparr>
   \<and> read_text intro_result_files ''docs/workflows/intro.md''
       = Some (''# Intro'' @ [nl] @ badge_section)
   \<and> read_text intro_result_files ''docs/README.md''
       = Some (index_intro
               @ ''\<newline>#### 00_other\<newline>\<newline>''
               @ ''- [Intro](workflows/intro.md)\<newline>''
               @ index_examples_heading @ index_rules_heading @ index_main_heading @ index_outro)
   \<and> determine_category ''docs/workflows/intro.md'' = ''00_other''
   \<and> category_name ''00_other'' = ''00_other''"
proof -
  have "category_name ''00_other'' = ''00_other''"
    by (simp add: category_name_def workflow_categories_def)
  with intro_run [of outcome] intro_read_workflow intro_read_readme intro_category show ?thesis
    by (simp add: intro_badged_text_def intro_readme_def)
qed

theorem end_to_end_intro_witness:
  "build_documentation intro_tree ToolNotFound
     = Inr \<lparr>br_files = intro_result_files, br_file_map = intro_file_map, br_link_issues = [],
            br_lint = (False, lint_not_found_message)\<rparr>
   \<and> read_text intro_result_files ''docs/workflows/intro.md''
       = Some (''# Intro'' @ [nl] @ badge_section)
   \<and> determine_category ''docs/workflows/intro.md'' = ''00_other''"
  using end_to_end_intro [of ToolNotFound] by simp

text \<open>
  The claim as stated fails: after the run on that tree, the text of \<open>docs/README.md\<close> does
  not hold the label \<open>Data Wrangling\<close> at all, so the link is under no heading with that
  label.
\<close>

theorem end_to_end_intro_counterexample:
  "build_documentation intro_tree (Completed 0 [])
     = Inr \<lparr>br_files = intro_result_files, br_file_map = intro_file_map, br_link_issues = [],
            br_lint = (True, lint_passed_message)\<rparr>
   \<and> read_text intro_result_files ''docs/README.md'' = Some intro_readme
   \<and> \<not> contains ''Data Wrangling'' intro_readme"
  using intro_run [of "Completed 0 []"] intro_read_readme no_label_readme by simp

end
